theory Spec2Isabelle
  imports Complex_Main
begin

section \<open>Numbers, errors and dense matrices\<close>

text \<open>
  A C++ \<open>double\<close> is idealised as a \<open>real\<close>: rounding, infinities and NaN are outside
  this development. An \<open>int\<close> of the source is an unbounded \<open>int\<close>; no arithmetic is
  done on marker identifiers and the stored offsets are small row counts.

  Exceptions are values. A call on the estimator that throws returns \<open>Inl (e, k)\<close>, with
  \<open>k\<close> the object as the exception leaves it (members assigned before the throw keep
  their new values); a callback of the simulator that throws returns \<open>Inl e\<close>.
\<close>

datatype error = IndexOutOfBounds | IncompatibleDimensions | OutOfRange

text \<open>
  \<open>arma::mat\<close>: a dense matrix, modelled as the list of its rows. The default-constructed
  matrix is the empty one.
\<close>

type_synonym mat = "real list list"

definition n_rows :: "mat \<Rightarrow> nat" where
  "n_rows m = length m"

definition n_cols :: "mat \<Rightarrow> nat" where
  "n_cols m = (case m of [] \<Rightarrow> 0 | row # _ \<Rightarrow> length row)"

definition zeros :: "nat \<Rightarrow> nat \<Rightarrow> mat" where
  "zeros nr nc = replicate nr (replicate nc 0)"

definition eye :: "nat \<Rightarrow> nat \<Rightarrow> mat" where
  "eye nr nc = map (\<lambda>i. map (\<lambda>j. if i = j then 1 else 0) [0..<nc]) [0..<nr]"

text \<open>
  \<open>m(i, j)\<close>: element access with Armadillo's bounds check, which throws when the
  position is outside the matrix. An \<open>int\<close> index is converted to the unsigned index
  type, so a negative one is out of bounds as well.
\<close>

definition elem :: "mat \<Rightarrow> int \<Rightarrow> int \<Rightarrow> error + real" where
  "elem m i j =
     (if 0 \<le> i \<and> i < int (n_rows m) \<and> 0 \<le> j \<and> j < int (n_cols m)
      then Inr (m ! nat i ! nat j)
      else Inl IndexOutOfBounds)"

text \<open>\<open>arma::mat{a, b}\<close>: a flat initializer list gives a matrix of one row.\<close>

definition mat_of_list :: "real list \<Rightarrow> mat" where
  "mat_of_list vs = [vs]"

text \<open>\<open>m.t()\<close>: the transpose.\<close>

definition t :: "mat \<Rightarrow> mat" where
  "t m = map (\<lambda>j. map (\<lambda>row. row ! j) m) [0..<n_cols m]"

text \<open>
  \<open>join_cols(a, b)\<close>: \<open>b\<close> below \<open>a\<close>. Armadillo throws when the numbers of columns
  differ and neither matrix is empty.
\<close>

definition is_empty :: "mat \<Rightarrow> bool" where
  "is_empty m = (n_rows m = 0 \<or> n_cols m = 0)"

definition join_cols :: "mat \<Rightarrow> mat \<Rightarrow> error + mat" where
  "join_cols a b =
     (if is_empty a then Inr b
      else if is_empty b then Inr a
      else if n_cols a = n_cols b then Inr (a @ b)
      else Inl IncompatibleDimensions)"

text \<open>\<open>a + b\<close> and \<open>a * b\<close>, with Armadillo's conformance checks.\<close>

definition mat_add :: "mat \<Rightarrow> mat \<Rightarrow> error + mat" where
  "mat_add a b =
     (if n_rows a = n_rows b \<and> n_cols a = n_cols b
      then Inr (map2 (map2 (+)) a b)
      else Inl IncompatibleDimensions)"

definition dot :: "real list \<Rightarrow> real list \<Rightarrow> real" where
  "dot u v = sum_list (map2 (*) u v)"

definition mat_mul :: "mat \<Rightarrow> mat \<Rightarrow> error + mat" where
  "mat_mul a b =
     (if n_cols a = n_rows b
      then Inr (map (\<lambda>row. map (\<lambda>j. dot row (map (\<lambda>brow. brow ! j) b)) [0..<n_cols b]) a)
      else Inl IncompatibleDimensions)"

text \<open>Sequencing of computations that may throw.\<close>

definition and_then :: "error + 'a \<Rightarrow> ('a \<Rightarrow> error + 'b) \<Rightarrow> error + 'b" where
  "and_then v f = (case v of Inl e \<Rightarrow> Inl e | Inr a \<Rightarrow> f a)"

section \<open>Helpers of turtlelib and the C library\<close>

text \<open>
  Modelled from the spec: \<open>normalize_angle\<close> is declared in turtlelib/rigid2d.hpp, which
  is not among the sources. The spec: "normalize an angle into (-pi, pi]". The value
  below is the one angle of that interval that differs from \<open>rad\<close> by a multiple of
  \<open>2 * pi\<close>.
\<close>

definition normalize_angle :: "real \<Rightarrow> real" where
  "normalize_angle rad = rad - 2 * pi * of_int \<lceil>(rad - pi) / (2 * pi)\<rceil>"

text \<open>
  Modelled from the spec: \<open>almost_equal\<close> is declared in turtlelib/rigid2d.hpp as well,
  and the spec only writes it as "thetadot \<approx> 0", "near-zero", "truly-zero". Every
  operation that calls it takes the comparison as its first argument, so the theorems
  hold for each comparison. \<open>almost_equal_tol\<close>, closeness within a tolerance, is the
  instance used to run the operations on concrete inputs.
\<close>

definition almost_equal_tol :: "real \<Rightarrow> real \<Rightarrow> real \<Rightarrow> bool" where
  "almost_equal_tol epsilon d1 d2 = (\<bar>d1 - d2\<bar> < epsilon)"

text \<open>\<open>std::atan2(b, a)\<close>: the angle of the point \<open>(a, b)\<close>, in \<open>(-pi, pi]\<close>, and 0 at the origin.\<close>

definition atan2 :: "real \<Rightarrow> real \<Rightarrow> real" where
  "atan2 b a =
     (if 0 < a then arctan (b / a)
      else if a < 0 then (if 0 \<le> b then arctan (b / a) + pi else arctan (b / a) - pi)
      else if 0 < b then pi / 2
      else if b < 0 then - (pi / 2)
      else 0)"

section \<open>The EKF-SLAM estimator (turtlelib/kalman.hpp, kalman.cpp)\<close>

record Twist2D =
  thetadot :: real
  xdot :: real
  ydot :: real

record LandmarkMeasurement =
  r :: real
  phi :: real
  marker_id :: int

record KalmanFilter =
  qt_hat :: mat
  mt_hat :: mat
  Xi_hat :: mat
  sigma_hat :: mat
  Q_mat :: mat
  landmarks_dict :: "int \<rightharpoonup> int"

text \<open>
  The constructor: \<open>qt_hat\<close> is 3 x 1 zeros, \<open>Xi_hat\<close> a copy of it, \<open>sigma_hat\<close> and \<open>Q_mat\<close>
  3 x 3 zeros; \<open>mt_hat\<close> and \<open>landmarks_dict\<close> are default-constructed.
\<close>

definition KalmanFilter_new :: KalmanFilter where
  "KalmanFilter_new =
     \<lparr>qt_hat = zeros 3 1, mt_hat = [], Xi_hat = zeros 3 1,
      sigma_hat = zeros 3 3, Q_mat = zeros 3 3, landmarks_dict = Map.empty\<rparr>"

text \<open>
  \<open>KalmanFilter::predict\<close>. Both branches read rows 0, 1 and 2 of \<open>Xi_hat\<close> and nothing is
  assigned before the last of these reads, so the three reads come first. \<open>qt_hat_new\<close>
  and \<open>A_t\<close> are the local matrices after their element assignments; \<open>qt_hat\<close> is
  assigned before the covariance product is formed.
\<close>

definition predict ::
  "(real \<Rightarrow> real \<Rightarrow> bool) \<Rightarrow> Twist2D \<Rightarrow> KalmanFilter \<Rightarrow> error \<times> KalmanFilter + KalmanFilter" where
  "predict almost_equal V k =
     (case and_then (elem (Xi_hat k) 0 0) (\<lambda>X0.
           and_then (elem (Xi_hat k) 1 0) (\<lambda>X1.
           and_then (elem (Xi_hat k) 2 0) (\<lambda>X2. Inr (X0, X1, X2)))) of
        Inl e \<Rightarrow> Inl (e, k)
      | Inr (X0, X1, X2) \<Rightarrow>
          let (qt_hat_new, A_t) =
                (if almost_equal (thetadot V) 0
                 then ([[0],
                        [X1 + xdot V * cos X0],
                        [X2 + xdot V * sin X0]],
                       [[0, 0, 0],
                        [- xdot V * sin X0, 0, 0],
                        [xdot V * cos X0, 0, 0]])
                 else ([[normalize_angle (X0 + thetadot V)],
                        [X1 - (xdot V / thetadot V) * sin X0
                            + (xdot V / thetadot V) * sin (X0 + thetadot V)],
                        [X2 + (xdot V / thetadot V) * cos X0
                            - (xdot V / thetadot V) * cos (X0 + thetadot V)]],
                       [[0, 0, 0],
                        [- (xdot V / thetadot V) * cos X0
                           + (xdot V / thetadot V) * cos (X0 + thetadot V), 0, 0],
                        [- (xdot V / thetadot V) * sin X0
                           + (xdot V / thetadot V) * sin (X0 + thetadot V), 0, 0]]));
              k1 = k\<lparr>qt_hat := qt_hat_new\<rparr>
          in (case and_then (mat_add (eye 3 3) A_t) (\<lambda>A.
                   and_then (mat_mul A (sigma_hat k1)) (\<lambda>AS.
                   and_then (mat_mul AS (t A)) (\<lambda>ASA.
                   mat_add ASA (Q_mat k1)))) of
                Inl e \<Rightarrow> Inl (e, k1)
              | Inr S \<Rightarrow> Inr (k1\<lparr>sigma_hat := S\<rparr>)))"

text \<open>
  \<open>KalmanFilter::update_measurements\<close>. The offset stored for a new landmark is
  \<open>Xi_hat.n_rows\<close>, read after the two rows have been appended.
\<close>

definition update_measurements ::
  "LandmarkMeasurement \<Rightarrow> KalmanFilter \<Rightarrow> error \<times> KalmanFilter + KalmanFilter" where
  "update_measurements measurement k =
     (if landmarks_dict k (marker_id measurement) = None
      then
        (case and_then (elem (Xi_hat k) 1 0) (\<lambda>X1.
              and_then (elem (Xi_hat k) 0 0) (\<lambda>X0.
              and_then (elem (Xi_hat k) 2 0) (\<lambda>X2.
                let mx_j = X1 + r measurement * cos (normalize_angle (phi measurement + X0));
                    my_j = X2 + r measurement * sin (normalize_angle (phi measurement + X0));
                    mt_j = t (mat_of_list [mx_j, my_j])
                in join_cols (Xi_hat k) mt_j))) of
           Inl e \<Rightarrow> Inl (e, k)
         | Inr Xi \<Rightarrow>
             Inr (k\<lparr>Xi_hat := Xi,
                    landmarks_dict := (landmarks_dict k)(marker_id measurement \<mapsto> int (n_rows Xi))\<rparr>))
      else Inr k)"

text \<open>
  The body of the loop of \<open>KalmanFilter::update\<close> after the association: the theoretical
  measurement \<open>h\<close> for the landmark stored at \<open>index\<close>. \<open>mj\<close> is built from a flat
  initializer list, and is then read at \<open>(0, 0)\<close> and \<open>(1, 0)\<close>.
\<close>

definition expected_measurement :: "mat \<Rightarrow> int \<Rightarrow> error + mat" where
  "expected_measurement Xi index =
     and_then (elem Xi index 0) (\<lambda>a.
     and_then (elem Xi (index + 1) 0) (\<lambda>b.
       let mj = mat_of_list [a, b] in
       and_then (elem mj 0 0) (\<lambda>mj0.
       and_then (elem Xi 1 0) (\<lambda>X1.
       and_then (elem mj 1 0) (\<lambda>mj1.
       and_then (elem Xi 2 0) (\<lambda>X2.
       and_then (elem Xi 0 0) (\<lambda>X0.
         let r_j = sqrt ((mj0 - X1) ^ 2 + (mj1 - X2) ^ 2);
             phi_j = normalize_angle (atan2 (mj1 - X2) (mj0 - X1) - X0)
         in Inr (mat_of_list [r_j, phi_j]))))))))"

text \<open>
  \<open>landmarks_dict[id]\<close> in \<open>update\<close>: \<open>operator[]\<close> of \<open>std::map\<close> inserts the value 0 for a
  key that is absent.
\<close>

definition dict_index :: "KalmanFilter \<Rightarrow> int \<Rightarrow> int \<times> KalmanFilter" where
  "dict_index k i =
     (case landmarks_dict k i of
        Some index \<Rightarrow> (index, k)
      | None \<Rightarrow> (0, k\<lparr>landmarks_dict := (landmarks_dict k)(i \<mapsto> 0)\<rparr>))"

text \<open>
  \<open>KalmanFilter::update\<close>: for each measurement in order, associate it, then compute
  \<open>h\<close>. The source has nothing after \<open>h\<close>: steps 2 to 4 are comments, and \<open>h\<close> is a local
  that is dropped.
\<close>

fun update :: "KalmanFilter \<Rightarrow> LandmarkMeasurement list \<Rightarrow> error \<times> KalmanFilter + KalmanFilter" where
  "update k [] = Inr k"
| "update k (m # ms) =
     (case update_measurements m k of
        Inl e \<Rightarrow> Inl e
      | Inr k1 \<Rightarrow>
          (case dict_index k1 (marker_id m) of
             (index, k2) \<Rightarrow>
               (case expected_measurement (Xi_hat k2) index of
                  Inl e \<Rightarrow> Inl (e, k2)
                | Inr h \<Rightarrow> update k2 ms)))"

definition pose_prediction :: "KalmanFilter \<Rightarrow> mat" where
  "pose_prediction k = qt_hat k"

definition map_prediction :: "KalmanFilter \<Rightarrow> mat" where
  "map_prediction k = mt_hat k"

definition state_prediction :: "KalmanFilter \<Rightarrow> mat" where
  "state_prediction k = Xi_hat k"

text \<open>
  A client of the class: any sequence of calls of its public operations on a new
  object. \<open>after\<close> is the object a call leaves behind, whether it returned or threw.
\<close>

datatype call =
  Predict Twist2D
| UpdateMeasurements LandmarkMeasurement
| Update "LandmarkMeasurement list"

definition after :: "error \<times> KalmanFilter + KalmanFilter \<Rightarrow> KalmanFilter" where
  "after res = (case res of Inl (e, k) \<Rightarrow> k | Inr k \<Rightarrow> k)"

fun perform :: "(real \<Rightarrow> real \<Rightarrow> bool) \<Rightarrow> KalmanFilter \<Rightarrow> call \<Rightarrow> KalmanFilter" where
  "perform almost_equal k (Predict V) = after (predict almost_equal V k)"
| "perform almost_equal k (UpdateMeasurements m) = after (update_measurements m k)"
| "perform almost_equal k (Update ms) = after (update k ms)"

definition run :: "(real \<Rightarrow> real \<Rightarrow> bool) \<Rightarrow> call list \<Rightarrow> KalmanFilter" where
  "run almost_equal calls = foldl (perform almost_equal) KalmanFilter_new calls"

section \<open>The simulator (nusim.cpp)\<close>

text \<open>
  The members of the node that the wheel-command callback, the timer callback and the
  collision check read and write. Publishers, services, the transform broadcaster and
  the messages they send are transport and are left out. \<open>ddrive\<close> is the
  \<open>turtlelib::DiffDrive\<close> object, whose class is not among the sources: its state is
  the type parameter.
\<close>

record WheelState =
  left :: real
  right :: real

record Pose2D =
  x :: real
  y :: real
  theta :: real

record WheelCommands =
  left_velocity :: int
  right_velocity :: int

record SensorData =
  left_encoder :: int
  right_encoder :: int

record 'd Nusim =
  obstacles_x :: "real list"
  obstacles_y :: "real list"
  obstacles_r :: real
  RATE :: int
  MOTOR_CMD_PER_RAD_SEC :: real
  ENCODER_TICKS_PER_RAD :: real
  SLIP_FRACTION :: real
  INPUT_NOISE :: real
  COLLISION_RADIUS :: real
  step :: nat
  count :: nat
  left_noise :: real
  right_noise :: real
  left_slip :: real
  right_slip :: real
  noisy_wheel_speeds :: WheelState
  slippy_wheel_angles :: WheelState
  true_wheel_angles :: WheelState
  true_wheel_speeds :: WheelState
  true_pose :: Pose2D
  ddrive :: 'd
  sensor_data :: SensorData

text \<open>
  Modelled from the spec: \<open>turtlelib::distance\<close> is declared in turtlelib/rigid2d.hpp,
  which is not among the sources. The spec: "compute Euclidean distance \<open>d\<close> between
  robot center and obstacle center". A \<open>Vector2D\<close> is the pair of its coordinates.
\<close>

definition distance :: "real \<times> real \<Rightarrow> real \<times> real \<Rightarrow> real" where
  "distance p1 p2 = sqrt ((fst p1 - fst p2) ^ 2 + (snd p1 - snd p2) ^ 2)"

text \<open>
  The body of the loop of \<open>Nusim::detect_collision\<close> for obstacle \<open>i\<close>, once
  \<open>obstacles_x.at(i)\<close> and \<open>obstacles_y.at(i)\<close> have returned.
\<close>

definition collide :: "nat \<Rightarrow> 'd Nusim \<Rightarrow> 'd Nusim" where
  "collide i s =
     (let p1 = (obstacles_x s ! i, obstacles_y s ! i);
          p2 = (x (true_pose s), y (true_pose s));
          d = distance p1 p2;
          dc = d - (obstacles_r s + COLLISION_RADIUS s)
      in if dc \<le> 0
         then
           let collision_angle =
                 atan2 (y (true_pose s) - obstacles_y s ! i) (x (true_pose s) - obstacles_x s ! i);
               distance_to_move = obstacles_r s + COLLISION_RADIUS s
           in s\<lparr>true_pose := (true_pose s)
                   \<lparr>x := obstacles_x s ! i + cos collision_angle * distance_to_move,
                    y := obstacles_y s ! i + sin collision_angle * distance_to_move\<rparr>\<rparr>
         else s)"

text \<open>
  The loop \<open>for (size_t i = 0; i < obstacles_x.size(); i++)\<close>, over the indices in
  order. \<open>std::vector::at\<close> throws when the index is outside the vector.
\<close>

primrec detect_collision_loop :: "nat list \<Rightarrow> 'd Nusim \<Rightarrow> error + 'd Nusim" where
  "detect_collision_loop [] s = Inr s"
| "detect_collision_loop (i # rest) s =
     (if i < length (obstacles_x s) \<and> i < length (obstacles_y s)
      then detect_collision_loop rest (collide i s)
      else Inl OutOfRange)"

definition detect_collision :: "'d Nusim \<Rightarrow> error + 'd Nusim" where
  "detect_collision s =
     (if length (obstacles_x s) > 0
      then detect_collision_loop [0..<length (obstacles_x s)] s
      else Inr s)"

text \<open>
  The process-wide generator \<open>get_random()\<close>: the callback draws from it at four places.
  A \<open>Draws\<close> holds the value each place gets when it is reached: \<open>left_noise_d\<close>,
  \<open>right_noise_d\<close>, and \<open>slip_d\<close> for the right and for the left wheel. What the callback
  does with the four values is \<open>wheel_cmd_callback\<close>; where they come from is
  \<open>sample_draws\<close> below.
\<close>

record Draws =
  left_noise_draw :: real
  right_noise_draw :: real
  right_slip_draw :: real
  left_slip_draw :: real

text \<open>\<open>Nusim::wheel_cmd_callback\<close>.\<close>

definition wheel_cmd_callback ::
  "(real \<Rightarrow> real \<Rightarrow> bool) \<Rightarrow> Draws \<Rightarrow> WheelCommands \<Rightarrow> 'd Nusim \<Rightarrow> 'd Nusim" where
  "wheel_cmd_callback almost_equal draws wheel_cmd s =
     (let s1 = s\<lparr>true_wheel_speeds :=
                   \<lparr>left = of_int (left_velocity wheel_cmd) * MOTOR_CMD_PER_RAD_SEC s,
                    right = of_int (right_velocity wheel_cmd) * MOTOR_CMD_PER_RAD_SEC s\<rparr>\<rparr>;
          s2 = (if almost_equal (of_int (left_velocity wheel_cmd)) 0
                then s1\<lparr>noisy_wheel_speeds :=
                          (noisy_wheel_speeds s1)\<lparr>left := left (true_wheel_speeds s1)\<rparr>\<rparr>
                else s1\<lparr>left_noise := left_noise_draw draws,
                        noisy_wheel_speeds :=
                          (noisy_wheel_speeds s1)
                            \<lparr>left := of_int (left_velocity wheel_cmd) * MOTOR_CMD_PER_RAD_SEC s1
                                      + left_noise_draw draws\<rparr>\<rparr>);
          s3 = (if almost_equal (of_int (right_velocity wheel_cmd)) 0
                then s2\<lparr>noisy_wheel_speeds :=
                          (noisy_wheel_speeds s2)\<lparr>right := right (true_wheel_speeds s2)\<rparr>\<rparr>
                else s2\<lparr>right_noise := right_noise_draw draws,
                        noisy_wheel_speeds :=
                          (noisy_wheel_speeds s2)
                            \<lparr>right := of_int (right_velocity wheel_cmd) * MOTOR_CMD_PER_RAD_SEC s2
                                       + right_noise_draw draws\<rparr>\<rparr>)
      in if \<not> almost_equal (SLIP_FRACTION s3) 0
         then s3\<lparr>right_slip := right_slip_draw draws, left_slip := left_slip_draw draws\<rparr>
         else s3)"

text \<open>
  The draws of one call of the callback. \<open>get_random()\<close> (kalman.cpp) returns the one
  \<open>std::mt19937\<close> of the process, whose state is the type parameter \<open>'g\<close>. The first two
  arguments stand for \<open>std::normal_distribution\<close> and \<open>std::uniform_real_distribution\<close>:
  from the two parameters of the distribution object and the generator they give the
  sample and the generator after it. The callback constructs \<open>left_noise_d\<close> and
  \<open>right_noise_d\<close> with the parameters \<open>(0.0, INPUT_NOISE)\<close>, the first being the mean,
  and \<open>slip_d\<close> with the range \<open>(-SLIP_FRACTION, SLIP_FRACTION)\<close>. It draws only at the
  places it reaches, in the order left noise, right noise, right slip, left slip; a
  place that is not reached has no draw (its field is 0, and \<open>wheel_cmd_callback\<close> does
  not read it). The standard asks for a range whose lower bound is not above the upper
  one, which a negative \<open>SLIP_FRACTION\<close> does not give.
\<close>

definition sample_draws ::
  "(real \<Rightarrow> real \<Rightarrow> 'g \<Rightarrow> real \<times> 'g) \<Rightarrow> (real \<Rightarrow> real \<Rightarrow> 'g \<Rightarrow> real \<times> 'g) \<Rightarrow>
   (real \<Rightarrow> real \<Rightarrow> bool) \<Rightarrow> WheelCommands \<Rightarrow> 'd Nusim \<Rightarrow> 'g \<Rightarrow> Draws \<times> 'g" where
  "sample_draws normal_distribution uniform_real_distribution almost_equal wheel_cmd s g =
     (let left_noise_d = normal_distribution 0 (INPUT_NOISE s);
          right_noise_d = normal_distribution 0 (INPUT_NOISE s);
          slip_d = uniform_real_distribution (- SLIP_FRACTION s) (SLIP_FRACTION s);
          l = (if almost_equal (of_int (left_velocity wheel_cmd)) 0
               then (0, g) else left_noise_d g);
          r = (if almost_equal (of_int (right_velocity wheel_cmd)) 0
               then (0, snd l) else right_noise_d (snd l));
          rs = (if \<not> almost_equal (SLIP_FRACTION s) 0 then slip_d (snd r) else (0, snd r));
          ls = (if \<not> almost_equal (SLIP_FRACTION s) 0 then slip_d (snd rs) else (0, snd rs))
      in (\<lparr>left_noise_draw = fst l, right_noise_draw = fst r,
           right_slip_draw = fst rs, left_slip_draw = fst ls\<rparr>,
          snd ls))"

text \<open>The callback with its draws taken from the generator.\<close>

definition wheel_cmd_callback_sampled ::
  "(real \<Rightarrow> real \<Rightarrow> 'g \<Rightarrow> real \<times> 'g) \<Rightarrow> (real \<Rightarrow> real \<Rightarrow> 'g \<Rightarrow> real \<times> 'g) \<Rightarrow>
   (real \<Rightarrow> real \<Rightarrow> bool) \<Rightarrow> WheelCommands \<Rightarrow> 'd Nusim \<Rightarrow> 'g \<Rightarrow> 'd Nusim \<times> 'g" where
  "wheel_cmd_callback_sampled normal_distribution uniform_real_distribution almost_equal
       wheel_cmd s g =
     (let sampled = sample_draws normal_distribution uniform_real_distribution almost_equal
                      wheel_cmd s g
      in (wheel_cmd_callback almost_equal (fst sampled) wheel_cmd s, snd sampled))"

text \<open>
  The cast \<open>(int)\<close> of a \<open>double\<close> into the 32-bit \<open>int\<close> of the encoder fields: the
  fraction is dropped, towards zero. When the result does not fit in 32 bits the C++
  standard leaves the cast undefined and the target decides (the conversion instruction
  of x86-64 gives \<open>-2147483648\<close>): \<open>out_of_range\<close> is that decision, a parameter, read
  as a 32-bit two's complement value.
\<close>

definition int32 :: "int \<Rightarrow> int" where
  "int32 z = (z + 2 ^ 31) mod 2 ^ 32 - 2 ^ 31"

definition to_int :: "(real \<Rightarrow> int) \<Rightarrow> real \<Rightarrow> int" where
  "to_int out_of_range v =
     (let z = (if 0 \<le> v then \<lfloor>v\<rfloor> else \<lceil>v\<rceil>)
      in if - (2 ^ 31) \<le> z \<and> z < 2 ^ 31 then z else int32 (out_of_range v))"

text \<open>
  \<open>Nusim::timer_callback\<close>, up to the collision check and the counters. Each member is
  assigned once, from members that the callback has not assigned before: \<open>angles\<close>,
  \<open>slippy\<close> and \<open>encoders\<close> are the new \<open>true_wheel_angles\<close>, \<open>slippy_wheel_angles\<close> and
  \<open>sensor_data\<close>. The forward kinematics of \<open>ddrive\<close> is the second argument: it returns
  the new pose and the new state of the \<open>DiffDrive\<close> object. \<open>step\<close> and \<open>count\<close> are
  64-bit unsigned counters (\<open>PATH_PUB_RATE\<close> is 100).
\<close>

definition timer_callback ::
  "(real \<Rightarrow> int) \<Rightarrow> ('d \<Rightarrow> Pose2D \<Rightarrow> WheelState \<Rightarrow> Pose2D \<times> 'd) \<Rightarrow> 'd Nusim \<Rightarrow> error + 'd Nusim" where
  "timer_callback out_of_range forward_kinematics s =
     (let angles =
            \<lparr>left = left (true_wheel_angles s)
                     + left (true_wheel_speeds s) * (1 / of_int (RATE s)),
             right = right (true_wheel_angles s)
                     + right (true_wheel_speeds s) * (1 / of_int (RATE s))\<rparr>;
          slippy =
            \<lparr>left = left (slippy_wheel_angles s)
                     + left (noisy_wheel_speeds s) * (1 + left_slip s) * (1 / of_int (RATE s)),
             right = right (slippy_wheel_angles s)
                     + right (noisy_wheel_speeds s) * (1 + right_slip s) * (1 / of_int (RATE s))\<rparr>;
          encoders =
            \<lparr>left_encoder = to_int out_of_range (left slippy * ENCODER_TICKS_PER_RAD s),
             right_encoder = to_int out_of_range (right slippy * ENCODER_TICKS_PER_RAD s)\<rparr>;
          moved = forward_kinematics (ddrive s) (true_pose s) angles
      in and_then
           (detect_collision
              (s\<lparr>true_wheel_angles := angles, slippy_wheel_angles := slippy,
                 sensor_data := encoders, true_pose := fst moved, ddrive := snd moved\<rparr>))
           (\<lambda>s5. Inr (if 100 \<le> count s5
                       then s5\<lparr>step := (step s5 + 1) mod 2 ^ 64, count := 0\<rparr>
                       else s5\<lparr>step := (step s5 + 1) mod 2 ^ 64,
                               count := (count s5 + 1) mod 2 ^ 64\<rparr>)))"

text \<open>
  A node right after its construction, used to run the callbacks on concrete inputs, for
  the parameters \<open>obstacles/x = [1]\<close>, \<open>obstacles/y = [0]\<close>, \<open>obstacles/r = 1\<close>,
  \<open>collision_radius = 0.5\<close>, \<open>rate = 200\<close>, \<open>motor_cmd_per_rad_sec = 1\<close>,
  \<open>encoder_ticks_per_rad = 100\<close>, \<open>slip_fraction = 0.5\<close>, \<open>input_noise = 1\<close> and the start pose
  (0, 0, 0). The \<open>DiffDrive\<close> object has no state here.
\<close>

definition example_sim :: "unit Nusim" where
  "example_sim =
     \<lparr>obstacles_x = [1], obstacles_y = [0], obstacles_r = 1, RATE = 200,
      MOTOR_CMD_PER_RAD_SEC = 1, ENCODER_TICKS_PER_RAD = 100, SLIP_FRACTION = 1 / 2,
      INPUT_NOISE = 1, COLLISION_RADIUS = 1 / 2, step = 0, count = 0,
      left_noise = 0, right_noise = 0, left_slip = 0, right_slip = 0,
      noisy_wheel_speeds = \<lparr>left = 0, right = 0\<rparr>,
      slippy_wheel_angles = \<lparr>left = 0, right = 0\<rparr>,
      true_wheel_angles = \<lparr>left = 0, right = 0\<rparr>,
      true_wheel_speeds = \<lparr>left = 0, right = 0\<rparr>,
      true_pose = \<lparr>x = 0, y = 0, theta = 0\<rparr>,
      ddrive = (),
      sensor_data = \<lparr>left_encoder = 0, right_encoder = 0\<rparr>\<rparr>"

text \<open>
  A generator that replays a list of numbers, used to run the callback on concrete
  inputs: a normal sample is the mean plus the second parameter times the next number,
  a uniform sample is the point of the range at the fraction given by the next number,
  kept within the range.
\<close>

definition tape_normal :: "real \<Rightarrow> real \<Rightarrow> real list \<Rightarrow> real \<times> real list" where
  "tape_normal mean stddev g =
     (case g of [] \<Rightarrow> (mean, []) | z # rest \<Rightarrow> (mean + stddev * z, rest))"

definition tape_uniform :: "real \<Rightarrow> real \<Rightarrow> real list \<Rightarrow> real \<times> real list" where
  "tape_uniform a b g =
     (case g of [] \<Rightarrow> (a, []) | u # rest \<Rightarrow> (a + (b - a) * max 0 (min 1 u), rest))"

section \<open>Properties of the estimator\<close>

lemma elem_row_vector_second_row: "elem (mat_of_list vs) 1 0 = Inl IndexOutOfBounds"
  by (simp add: elem_def mat_of_list_def n_rows_def)

lemma elem_error: "elem m i j = Inl e \<Longrightarrow> e = IndexOutOfBounds"
  by (auto simp: elem_def split: if_splits)

lemma elem_Inr_bounds: "elem m i j = Inr v \<Longrightarrow> 0 \<le> i \<and> i < int (n_rows m) \<and> 0 \<le> j \<and> j < int (n_cols m)"
  by (auto simp: elem_def split: if_splits)

lemma expected_measurement_throws: "expected_measurement Xi index = Inl IndexOutOfBounds"
  by (auto simp: expected_measurement_def and_then_def Let_def elem_row_vector_second_row
      split: sum.splits dest: elem_error)

lemma normalize_angle_0: "normalize_angle 0 = 0"
  unfolding normalize_angle_def by (simp add: ceiling_eq_iff)

lemma t_row2: "t (mat_of_list [a, b]) = [[a], [b]]"
  by (simp add: t_def mat_of_list_def n_cols_def upt_rec)

lemma join_cols_appends:
  assumes "join_cols a b = Inr c" "\<not> is_empty a" "\<not> is_empty b"
  shows "c = a @ b \<and> n_cols a = n_cols b"
  using assms by (auto simp: join_cols_def split: if_splits)

text \<open>What \<open>update_measurements\<close> does, as one case distinction.\<close>

lemma update_measurements_cases:
  obtains (known) "landmarks_dict k (marker_id m) \<noteq> None" "update_measurements m k = Inr k"
  | (threw) e where "landmarks_dict k (marker_id m) = None" "update_measurements m k = Inl (e, k)"
  | (new) X0 X1 X2 where "landmarks_dict k (marker_id m) = None"
      "elem (Xi_hat k) 0 0 = Inr X0" "elem (Xi_hat k) 1 0 = Inr X1" "elem (Xi_hat k) 2 0 = Inr X2"
      "n_cols (Xi_hat k) = 1"
      "update_measurements m k =
         Inr (k\<lparr>Xi_hat := Xi_hat k @ [[X1 + r m * cos (normalize_angle (phi m + X0))],
                                      [X2 + r m * sin (normalize_angle (phi m + X0))]],
                landmarks_dict := (landmarks_dict k)(marker_id m \<mapsto> int (n_rows (Xi_hat k)) + 2)\<rparr>)"
proof (cases "landmarks_dict k (marker_id m) = None")
  case False
  then have "update_measurements m k = Inr k" by (auto simp: update_measurements_def)
  with False show ?thesis using known by blast
next
  case None: True
  show ?thesis
  proof (cases "and_then (elem (Xi_hat k) 1 0) (\<lambda>X1.
              and_then (elem (Xi_hat k) 0 0) (\<lambda>X0.
              and_then (elem (Xi_hat k) 2 0) (\<lambda>X2.
                let mx_j = X1 + r m * cos (normalize_angle (phi m + X0));
                    my_j = X2 + r m * sin (normalize_angle (phi m + X0));
                    mt_j = t (mat_of_list [mx_j, my_j])
                in join_cols (Xi_hat k) mt_j)))")
    case (Inl e)
    then have "update_measurements m k = Inl (e, k)" using None by (simp add: update_measurements_def)
    with None show ?thesis using threw by blast
  next
    case (Inr Xi)
    then obtain X0 X1 X2 where e: "elem (Xi_hat k) 0 0 = Inr X0" "elem (Xi_hat k) 1 0 = Inr X1"
        "elem (Xi_hat k) 2 0 = Inr X2"
      and j: "join_cols (Xi_hat k) [[X1 + r m * cos (normalize_angle (phi m + X0))],
                                      [X2 + r m * sin (normalize_angle (phi m + X0))]] = Inr Xi"
      by (auto simp: and_then_def Let_def t_row2 split: sum.splits)
    from e(1) have ne: "\<not> is_empty (Xi_hat k)"
      by (auto simp: is_empty_def dest!: elem_Inr_bounds)
    have ne2: "\<not> is_empty [[X1 + r m * cos (normalize_angle (phi m + X0))],
                                      [X2 + r m * sin (normalize_angle (phi m + X0))]]"
      by (simp add: is_empty_def n_rows_def n_cols_def)
    from join_cols_appends[OF j ne ne2]
    have Xi: "Xi = Xi_hat k @ [[X1 + r m * cos (normalize_angle (phi m + X0))],
                                      [X2 + r m * sin (normalize_angle (phi m + X0))]]"
      and c: "n_cols (Xi_hat k) = 1" by (simp_all add: n_cols_def)
    have "update_measurements m k = Inr (k\<lparr>Xi_hat := Xi,
                    landmarks_dict := (landmarks_dict k)(marker_id m \<mapsto> int (n_rows Xi))\<rparr>)"
      using None Inr by (simp add: update_measurements_def)
    then have "update_measurements m k =
         Inr (k\<lparr>Xi_hat := Xi_hat k @ [[X1 + r m * cos (normalize_angle (phi m + X0))],
                                      [X2 + r m * sin (normalize_angle (phi m + X0))]],
                landmarks_dict := (landmarks_dict k)(marker_id m \<mapsto> int (n_rows (Xi_hat k)) + 2)\<rparr>)"
      using Xi by (simp add: n_rows_def add.commute)
    with None e c show ?thesis using new by blast
  qed
qed


lemma after_simps [simp]: "after (Inr k) = k" "after (Inl (e, k)) = k"
  by (simp_all add: after_def)

lemma update_measurements_registers:
  "update_measurements m k = Inr k1 \<Longrightarrow> landmarks_dict k1 (marker_id m) \<noteq> None"
  by (rule update_measurements_cases[of k m]) auto

lemma update_throws:
  "\<exists>e. update k (m # ms) = Inl (e, after (update_measurements m k))"
proof (cases "update_measurements m k")
  case (Inl a)
  then show ?thesis by (cases a) simp
next
  case (Inr k1)
  from update_measurements_registers[OF Inr] obtain index where
    "landmarks_dict k1 (marker_id m) = Some index" by blast
  then have "dict_index k1 (marker_id m) = (index, k1)" by (simp add: dict_index_def)
  with Inr show ?thesis by (simp add: expected_measurement_throws)
qed

lemma update_measurements_frame:
  "qt_hat (after (update_measurements m k)) = qt_hat k"
  "mt_hat (after (update_measurements m k)) = mt_hat k"
  "sigma_hat (after (update_measurements m k)) = sigma_hat k"
  "Q_mat (after (update_measurements m k)) = Q_mat k"
  by (rule update_measurements_cases[of k m]; simp)+

lemma update_measurements_keeps_rows:
  "take (n_rows (Xi_hat k)) (Xi_hat (after (update_measurements m k))) = Xi_hat k"
  by (rule update_measurements_cases[of k m]) (simp_all add: n_rows_def)

lemma predict_frame:
  "mt_hat (after (predict almost_equal V k)) = mt_hat k"
  "Xi_hat (after (predict almost_equal V k)) = Xi_hat k"
  "Q_mat (after (predict almost_equal V k)) = Q_mat k"
  "landmarks_dict (after (predict almost_equal V k)) = landmarks_dict k"
  by (simp_all add: predict_def Let_def split: sum.splits prod.splits)


lemma after_update_Cons: "after (update k (m # ms)) = after (update_measurements m k)"
proof -
  obtain e where "update k (m # ms) = Inl (e, after (update_measurements m k))"
    using update_throws by blast
  then show ?thesis by (simp only: after_simps)
qed

lemma update_frame:
  "qt_hat (after (update k ms)) = qt_hat k"
  "mt_hat (after (update k ms)) = mt_hat k"
  "sigma_hat (after (update k ms)) = sigma_hat k"
  "Q_mat (after (update k ms)) = Q_mat k"
  "take (n_rows (Xi_hat k)) (Xi_hat (after (update k ms))) = Xi_hat k"
  by (cases ms; simp only: after_update_Cons update_measurements_frame
      update_measurements_keeps_rows; simp add: n_rows_def)+

lemma run_Nil: "run almost_equal [] = KalmanFilter_new"
  by (simp add: run_def)

lemma run_snoc: "run almost_equal (calls @ [c]) = perform almost_equal (run almost_equal calls) c"
  by (simp add: run_def)

lemma take_3_of_longer:
  assumes "take 3 X = zeros 3 1" "take (n_rows X) X' = X"
  shows "take 3 X' = zeros 3 1"
proof -
  have "length (take 3 X) = 3" using assms(1) by (simp add: zeros_def)
  then have "3 \<le> n_rows X" by (simp add: n_rows_def)
  then have "take 3 X' = take 3 (take (n_rows X) X')" by (simp add: min_def)
  with assms show ?thesis by simp
qed

lemma perform_keeps_pose_block:
  "take 3 (Xi_hat k) = zeros 3 1 \<Longrightarrow> take 3 (Xi_hat (perform almost_equal k c)) = zeros 3 1"
  by (cases c)
    (simp_all add: predict_frame take_3_of_longer update_measurements_keeps_rows update_frame)

lemma run_pose_block: "take 3 (Xi_hat (run almost_equal calls)) = zeros 3 1"
  by (induction calls rule: rev_induct)
    (simp_all add: run_Nil run_snoc perform_keeps_pose_block KalmanFilter_new_def zeros_def)

lemma perform_keeps_mt_hat: "mt_hat (perform almost_equal k c) = mt_hat k"
  by (cases c) (simp_all add: predict_frame update_measurements_frame update_frame)

lemma run_mt_hat: "mt_hat (run almost_equal calls) = []"
  by (induction calls rule: rev_induct)
    (simp_all add: run_Nil run_snoc perform_keeps_mt_hat KalmanFilter_new_def)

lemma pose_block_reads:
  assumes "take 3 X = zeros 3 1"
  shows "elem X 0 0 = Inr 0" "elem X 1 0 = Inr 0" "elem X 2 0 = Inr 0" "n_cols X = 1"
proof -
  from assms obtain rest where X: "X = [0] # [0] # [0] # rest"
    by (cases X; cases "tl X"; cases "tl (tl X)") (auto simp: zeros_def numeral_3_eq_3)
  show "elem X 0 0 = Inr 0" "elem X 1 0 = Inr 0" "elem X 2 0 = Inr 0" "n_cols X = 1"
    by (simp_all add: X elem_def n_rows_def n_cols_def)
qed

lemma join_cols_column: "n_cols X = 1 \<Longrightarrow> join_cols X [[a], [b]] = Inr (X @ [[a], [b]])"
  by (cases X) (simp_all add: join_cols_def is_empty_def n_rows_def n_cols_def)

lemma update_measurements_reads_initial_pose:
  assumes "take 3 (Xi_hat k) = zeros 3 1" "landmarks_dict k (marker_id m) = None"
  shows "update_measurements m k =
     Inr (k\<lparr>Xi_hat := Xi_hat k @ [[0 + r m * cos (normalize_angle (phi m + 0))],
                                  [0 + r m * sin (normalize_angle (phi m + 0))]],
            landmarks_dict := (landmarks_dict k)(marker_id m \<mapsto> int (n_rows (Xi_hat k)) + 2)\<rparr>)"
  using assms(2) pose_block_reads[OF assms(1)]
  by (simp add: update_measurements_def and_then_def t_row2 join_cols_column n_rows_def
      add.commute)

lemma normalize_angle_id: "- pi < a \<Longrightarrow> a \<le> pi \<Longrightarrow> normalize_angle a = a"
proof -
  assume a: "- pi < a" "a \<le> pi"
  have "\<lceil>(a - pi) / (2 * pi)\<rceil> = 0"
    using a pi_gt_zero by (intro ceiling_unique) (simp_all add: field_simps)
  then show ?thesis by (simp add: normalize_angle_def)
qed

lemma normalize_angle_1: "normalize_angle 1 = 1"
  using pi_ge_two by (intro normalize_angle_id) simp_all

lemma eye_3: "eye 3 3 = [[1, 0, 0], [0, 1, 0], [0, 0, 1]]"
  by (simp add: eye_def upt_rec)

lemma zeros_3_3: "zeros 3 3 = [[0, 0, 0], [0, 0, 0], [0, 0, 0]]"
  by (simp add: zeros_def numeral_3_eq_3)

lemma covariance_step_zero:
  "and_then (mat_add (eye 3 3) [[0, 0, 0], [a, 0, 0], [b, 0, 0]]) (\<lambda>A.
     and_then (mat_mul A (zeros 3 3)) (\<lambda>AS.
     and_then (mat_mul AS (t A)) (\<lambda>ASA.
     mat_add ASA (zeros 3 3)))) = Inr (zeros 3 3)"
proof -
  let ?A = "[[1, 0, 0], [a, 1, 0], [b, 0, 1]]"
  have 1: "mat_add (eye 3 3) [[0, 0, 0], [a, 0, 0], [b, 0, 0]] = Inr ?A"
    by (simp add: eye_3 mat_add_def n_rows_def n_cols_def)
  have 2: "mat_mul ?A (zeros 3 3) = Inr (zeros 3 3)"
    by (simp add: zeros_3_3 mat_mul_def dot_def n_rows_def n_cols_def upt_rec)
  have 3: "mat_mul (zeros 3 3) (t ?A) = Inr (zeros 3 3)"
    by (simp add: zeros_3_3 mat_mul_def t_def dot_def n_rows_def n_cols_def upt_rec)
  have 4: "mat_add (zeros 3 3) (zeros 3 3) = Inr (zeros 3 3)"
    by (simp add: zeros_3_3 mat_add_def n_rows_def n_cols_def)
  show ?thesis by (simp add: and_then_def 1 2 3 4)
qed

lemma same_covariance: "sigma_hat k = S \<Longrightarrow> k\<lparr>qt_hat := q, sigma_hat := S\<rparr> = k\<lparr>qt_hat := q\<rparr>"
  by (cases k) simp

lemma predict_on_zero_covariance:
  assumes "take 3 (Xi_hat k) = zeros 3 1" "sigma_hat k = zeros 3 3" "Q_mat k = zeros 3 3"
  shows "predict almost_equal V k =
     Inr (k\<lparr>qt_hat :=
            (if almost_equal (thetadot V) 0
             then [[0], [xdot V], [0]]
             else [[normalize_angle (thetadot V)],
                   [(xdot V / thetadot V) * sin (thetadot V)],
                   [xdot V / thetadot V - (xdot V / thetadot V) * cos (thetadot V)]])\<rparr>)"
proof -
  have reads: "and_then (elem (Xi_hat k) 0 0) (\<lambda>X0.
           and_then (elem (Xi_hat k) 1 0) (\<lambda>X1.
           and_then (elem (Xi_hat k) 2 0) (\<lambda>X2. Inr (X0, X1, X2)))) = Inr (0, 0, 0)"
    using pose_block_reads[OF assms(1)] by (simp add: and_then_def)
  show ?thesis
    unfolding predict_def reads
    by (simp add: assms(2,3) covariance_step_zero same_covariance)
qed

text \<open>
  What a prediction with no motion does to an object with a 3 x 3 covariance: \<open>Xi_hat\<close>
  stays (\<open>predict_frame\<close>), \<open>sigma_hat\<close> becomes \<open>sigma_hat + Q_mat\<close> entry by entry, and
  \<open>qt_hat\<close> becomes the position stored in \<open>Xi_hat\<close> with the heading 0.
\<close>

lemma predict_zero_twist:
  assumes zero: "almost_equal (thetadot V) 0" "xdot V = 0"
    and reads: "elem (Xi_hat k) 0 0 = Inr X0" "elem (Xi_hat k) 1 0 = Inr X1"
      "elem (Xi_hat k) 2 0 = Inr X2"
    and S: "sigma_hat k = [[s00, s01, s02], [s10, s11, s12], [s20, s21, s22]]"
    and Q: "Q_mat k = [[q00, q01, q02], [q10, q11, q12], [q20, q21, q22]]"
  shows "predict almost_equal V k =
     Inr (k\<lparr>qt_hat := [[0], [X1], [X2]],
            sigma_hat := [[s00 + q00, s01 + q01, s02 + q02],
                          [s10 + q10, s11 + q11, s12 + q12],
                          [s20 + q20, s21 + q21, s22 + q22]]\<rparr>)"
proof -
  let ?I = "[[1, 0, 0], [0, 1, 0], [0, 0, 1 :: real]]"
  let ?S = "[[s00, s01, s02], [s10, s11, s12], [s20, s21, s22]]"
  let ?Q = "[[q00, q01, q02], [q10, q11, q12], [q20, q21, q22]]"
  have 1: "mat_add (eye 3 3) [[0, 0, 0], [0, 0, 0], [0, 0, 0]] = Inr ?I"
    by (simp add: eye_3 mat_add_def n_rows_def n_cols_def)
  have 2: "mat_mul ?I ?S = Inr ?S"
    by (simp add: mat_mul_def dot_def n_rows_def n_cols_def upt_rec)
  have 3: "mat_mul ?S (t ?I) = Inr ?S"
    by (simp add: mat_mul_def t_def dot_def n_rows_def n_cols_def upt_rec)
  have 4: "mat_add ?S ?Q = Inr [[s00 + q00, s01 + q01, s02 + q02],
                          [s10 + q10, s11 + q11, s12 + q12],
                          [s20 + q20, s21 + q21, s22 + q22]]"
    by (simp add: mat_add_def n_rows_def n_cols_def)
  have step: "and_then (mat_add (eye 3 3) [[0, 0, 0], [0, 0, 0], [0, 0, 0]]) (\<lambda>A.
      and_then (mat_mul A ?S) (\<lambda>AS. and_then (mat_mul AS (t A)) (\<lambda>ASA. mat_add ASA ?Q)))
      = Inr [[s00 + q00, s01 + q01, s02 + q02],
             [s10 + q10, s11 + q11, s12 + q12],
             [s20 + q20, s21 + q21, s22 + q22]]"
    by (simp add: and_then_def 1 2 3 4)
  have reads': "and_then (elem (Xi_hat k) 0 0) (\<lambda>X0.
           and_then (elem (Xi_hat k) 1 0) (\<lambda>X1.
           and_then (elem (Xi_hat k) 2 0) (\<lambda>X2. Inr (X0, X1, X2)))) = Inr (X0, X1, X2)"
    using reads by (simp add: and_then_def)
  show ?thesis
    unfolding predict_def reads'
    by (simp add: zero S Q step)
qed

text \<open>
  The offset stored at a first sighting is the number of rows after the append, in every
  state: it addresses no row.
\<close>

lemma stored_offset_is_row_count:
  assumes "landmarks_dict k (marker_id m) = None" "update_measurements m k = Inr k1"
  shows "landmarks_dict k1 (marker_id m) = Some (int (n_rows (Xi_hat k1)))"
    and "elem (Xi_hat k1) (int (n_rows (Xi_hat k1))) 0 = Inl IndexOutOfBounds"
proof -
  show "landmarks_dict k1 (marker_id m) = Some (int (n_rows (Xi_hat k1)))"
    using assms by - (rule update_measurements_cases[of k m], auto simp: n_rows_def)
  show "elem (Xi_hat k1) (int (n_rows (Xi_hat k1))) 0 = Inl IndexOutOfBounds"
    by (simp add: elem_def)
qed

text \<open>An offset, once stored, is kept by every call.\<close>

lemma update_measurements_keeps_offsets:
  assumes "landmarks_dict k i = Some v"
  shows "landmarks_dict (after (update_measurements m k)) i = Some v"
  using assms by - (rule update_measurements_cases[of k m], auto)

lemma offset_never_reassigned:
  assumes "landmarks_dict k i = Some v"
  shows "landmarks_dict (perform almost_equal k c) i = Some v"
proof (cases c)
  case (Predict V)
  then show ?thesis using assms by (simp add: predict_frame)
next
  case (UpdateMeasurements m)
  then show ?thesis using assms by (simp add: update_measurements_keeps_offsets)
next
  case (Update ms)
  show ?thesis
  proof (cases ms)
    case Nil
    with Update assms show ?thesis by simp
  next
    case (Cons m ms')
    show ?thesis
      unfolding Update Cons perform.simps after_update_Cons
      by (rule update_measurements_keeps_offsets[OF assms])
  qed
qed

lemma new_filter_facts:
  "take 3 (Xi_hat KalmanFilter_new) = zeros 3 1"
  "sigma_hat KalmanFilter_new = zeros 3 3"
  "Q_mat KalmanFilter_new = zeros 3 3"
  by (simp_all add: KalmanFilter_new_def zeros_def)

lemma predict_turn:
  "predict (almost_equal_tol (1 / 10 ^ 12)) \<lparr>thetadot = 1, xdot = 1, ydot = 0\<rparr> KalmanFilter_new =
     Inr (KalmanFilter_new\<lparr>qt_hat := [[1], [sin 1], [1 - cos 1]]\<rparr>)"
  unfolding predict_on_zero_covariance[OF new_filter_facts]
  by (simp add: almost_equal_tol_def normalize_angle_1)

lemma predict_zero_twist_after_turn:
  "predict (almost_equal_tol (1 / 10 ^ 12)) \<lparr>thetadot = 0, xdot = 0, ydot = 0\<rparr>
        (KalmanFilter_new\<lparr>qt_hat := [[1], [sin 1], [1 - cos 1]]\<rparr>) =
     Inr (KalmanFilter_new\<lparr>qt_hat := [[0], [0], [0]]\<rparr>)"
proof -
  let ?k1 = "KalmanFilter_new\<lparr>qt_hat := [[1], [sin 1], [1 - cos 1]]\<rparr>"
  have k1: "take 3 (Xi_hat ?k1) = zeros 3 1" "sigma_hat ?k1 = zeros 3 3" "Q_mat ?k1 = zeros 3 3"
    using new_filter_facts by simp_all
  show ?thesis
    unfolding predict_on_zero_covariance[OF k1] by (simp add: almost_equal_tol_def)
qed

lemma perform_keeps_covariance:
  assumes "take 3 (Xi_hat k) = zeros 3 1" "sigma_hat k = zeros 3 3" "Q_mat k = zeros 3 3"
  shows "sigma_hat (perform almost_equal k c) = zeros 3 3 \<and> Q_mat (perform almost_equal k c) = zeros 3 3"
proof (cases c)
  case (Predict V)
  show ?thesis
    unfolding Predict perform.simps predict_on_zero_covariance[OF assms] after_simps
    using assms(2,3) by simp
next
  case (UpdateMeasurements m)
  then show ?thesis using assms(2,3) by (simp add: update_measurements_frame)
next
  case (Update ms)
  then show ?thesis using assms(2,3) by (simp add: update_frame)
qed

lemma run_covariance: 
  "sigma_hat (run almost_equal calls) = zeros 3 3 \<and> Q_mat (run almost_equal calls) = zeros 3 3"
proof (induction calls rule: rev_induct)
  case Nil
  show ?case by (simp add: run_Nil KalmanFilter_new_def)
next
  case (snoc c calls)
  then show ?case
    unfolding run_snoc using perform_keeps_covariance[OF run_pose_block] by blast
qed

lemma update_measurements_ignores_qt_hat:
  "after (update_measurements m (k\<lparr>qt_hat := q\<rparr>)) = (after (update_measurements m k))\<lparr>qt_hat := q\<rparr>"
  by (simp add: update_measurements_def split: sum.splits)

lemma update_ignores_qt_hat:
  "after (update (k\<lparr>qt_hat := q\<rparr>) ms) = (after (update k ms))\<lparr>qt_hat := q\<rparr>"
proof (cases ms)
  case Nil
  then show ?thesis by simp
next
  case (Cons m ms')
  show ?thesis
    unfolding Cons by (simp only: after_update_Cons update_measurements_ignores_qt_hat)
qed

lemma first_sighting:
  "update_measurements \<lparr>r = 1, phi = 0, marker_id = 5\<rparr> KalmanFilter_new =
     Inr (KalmanFilter_new\<lparr>Xi_hat := [[0], [0], [0], [1], [0]], landmarks_dict := [5 \<mapsto> 5]\<rparr>)"
  using update_measurements_reads_initial_pose[OF new_filter_facts(1),
      of "\<lparr>r = 1, phi = 0, marker_id = 5\<rparr>"]
  by (simp add: KalmanFilter_new_def normalize_angle_0 zeros_def n_rows_def numeral_3_eq_3)

subsection \<open>The claims about the estimator\<close>

text \<open>
  C1 (the correct step applies the Kalman gain, the innovation and the posterior update,
  so that observations change the estimate): the source does not. For every object and
  every non-empty batch, \<open>update\<close> throws while it computes \<open>h\<close> for the first
  measurement, and whatever the batch, the object it leaves has the \<open>qt_hat\<close>,
  \<open>sigma_hat\<close> and \<open>Q_mat\<close> it had and every row of \<open>Xi_hat\<close> it had: no gain, no
  innovation and no posterior update is applied.
\<close>

theorem update_applies_no_correction:
  "(\<exists>e. update k (m # ms) = Inl (e, after (update_measurements m k)))
   \<and> qt_hat (after (update k batch)) = qt_hat k
   \<and> sigma_hat (after (update k batch)) = sigma_hat k
   \<and> Q_mat (after (update k batch)) = Q_mat k
   \<and> take (n_rows (Xi_hat k)) (Xi_hat (after (update k batch))) = Xi_hat k"
  by (simp only: update_throws update_frame simp_thms)

text \<open>
  C2 (the covariance is square of the dimension of the joint state, and grows in
  lock-step with it): the source never resizes \<open>sigma_hat\<close> or \<open>Q_mat\<close>. After any
  sequence of calls both are the 3 x 3 zero matrix, while the first sighting of
  landmark 5 by a new filter leaves a joint state of 5 rows.
\<close>

theorem covariance_does_not_grow:
  "sigma_hat (run almost_equal calls) = zeros 3 3
   \<and> Q_mat (run almost_equal calls) = zeros 3 3
   \<and> n_rows (zeros 3 3) = 3 \<and> n_cols (zeros 3 3) = 3
   \<and> n_rows (Xi_hat (after (update KalmanFilter_new [\<lparr>r = 1, phi = 0, marker_id = 5\<rparr>]))) = 5
   \<and> sigma_hat (after (update KalmanFilter_new [\<lparr>r = 1, phi = 0, marker_id = 5\<rparr>])) = zeros 3 3
   \<and> Q_mat (after (update KalmanFilter_new [\<lparr>r = 1, phi = 0, marker_id = 5\<rparr>])) = zeros 3 3"
  by (simp only: after_update_Cons first_sighting after_simps run_covariance)
    (simp add: n_rows_def n_cols_def zeros_3_3 new_filter_facts)

text \<open>
  C3 (every key of the index map refers to a valid 2-row block of the joint state): the
  offset stored at the first sighting is the row count after the append. For a new
  filter and the measurement (r = 1, phi = 0, id = 5), the joint state has 5 rows, the
  offset stored for key 5 is 5, and reading row 5 or row 6 is out of bounds.
\<close>

theorem stored_offset_past_the_end:
  "landmarks_dict (after (update_measurements \<lparr>r = 1, phi = 0, marker_id = 5\<rparr> KalmanFilter_new)) 5 = Some 5
   \<and> n_rows (Xi_hat (after (update_measurements \<lparr>r = 1, phi = 0, marker_id = 5\<rparr> KalmanFilter_new))) = 5
   \<and> elem (Xi_hat (after (update_measurements \<lparr>r = 1, phi = 0, marker_id = 5\<rparr> KalmanFilter_new))) 5 0
       = Inl IndexOutOfBounds
   \<and> elem (Xi_hat (after (update_measurements \<lparr>r = 1, phi = 0, marker_id = 5\<rparr> KalmanFilter_new))) (5 + 1) 0
       = Inl IndexOutOfBounds"
  by (simp add: first_sighting elem_def n_rows_def)

text \<open>
  C4 (one correct call with (r = 1, phi = 0, id = 5) on a filter at pose (0, 0, 0) gives
  landmark 5 the position (1, 0) and registers key 5; a second identical call does not
  grow the state): the rows (1, 0) are appended and key 5 is registered, but the call
  throws an out-of-bounds error when it reads the landmark back through the stored
  offset 5, and so does the second call, which leaves the state as it was.
\<close>

theorem first_correct_call_throws:
  "update KalmanFilter_new [\<lparr>r = 1, phi = 0, marker_id = 5\<rparr>] =
     Inl (IndexOutOfBounds,
          KalmanFilter_new\<lparr>Xi_hat := [[0], [0], [0], [1], [0]], landmarks_dict := [5 \<mapsto> 5]\<rparr>)
   \<and> update (KalmanFilter_new\<lparr>Xi_hat := [[0], [0], [0], [1], [0]], landmarks_dict := [5 \<mapsto> 5]\<rparr>)
        [\<lparr>r = 1, phi = 0, marker_id = 5\<rparr>] =
     Inl (IndexOutOfBounds,
          KalmanFilter_new\<lparr>Xi_hat := [[0], [0], [0], [1], [0]], landmarks_dict := [5 \<mapsto> 5]\<rparr>)"
proof -
  let ?m = "\<lparr>r = 1, phi = 0, marker_id = 5\<rparr>"
  let ?k1 = "KalmanFilter_new\<lparr>Xi_hat := [[0], [0], [0], [1], [0]], landmarks_dict := [5 \<mapsto> 5]\<rparr>"
  have "update_measurements ?m ?k1 = Inr ?k1"
    by (simp add: update_measurements_def)
  moreover have "dict_index ?k1 (marker_id ?m) = (5, ?k1)"
    by (simp add: dict_index_def)
  ultimately show ?thesis
    by (simp only: update.simps first_sighting expected_measurement_throws sum.case prod.case
        simp_thms)
qed

text \<open>
  C5 (predict with a zero twist leaves the pose prediction, and its heading, unchanged):
  after a prediction with \<open>thetadot = 1\<close>, \<open>xdot = 1\<close> the pose prediction of a new
  filter is \<open>(1, sin 1, 1 - cos 1)\<close>; a prediction with the zero twist then makes it
  \<open>(0, 0, 0)\<close>: the heading goes from 1 to 0.
\<close>

theorem zero_twist_resets_pose:
  "predict (almost_equal_tol (1 / 10 ^ 12)) \<lparr>thetadot = 1, xdot = 1, ydot = 0\<rparr> KalmanFilter_new =
     Inr (KalmanFilter_new\<lparr>qt_hat := [[1], [sin 1], [1 - cos 1]]\<rparr>)
   \<and> predict (almost_equal_tol (1 / 10 ^ 12)) \<lparr>thetadot = 0, xdot = 0, ydot = 0\<rparr>
        (KalmanFilter_new\<lparr>qt_hat := [[1], [sin 1], [1 - cos 1]]\<rparr>) =
     Inr (KalmanFilter_new\<lparr>qt_hat := [[0], [0], [0]]\<rparr>)
   \<and> pose_prediction (KalmanFilter_new\<lparr>qt_hat := [[1], [sin 1], [1 - cos 1]]\<rparr>) = [[1], [sin 1], [1 - cos 1]]
   \<and> pose_prediction (KalmanFilter_new\<lparr>qt_hat := [[0], [0], [0]]\<rparr>) = [[0], [0], [0]]
   \<and> pose_prediction (KalmanFilter_new\<lparr>qt_hat := [[0], [0], [0]]\<rparr>)
       \<noteq> pose_prediction (KalmanFilter_new\<lparr>qt_hat := [[1], [sin 1], [1 - cos 1]]\<rparr>)"
  by (simp only: predict_turn predict_zero_twist_after_turn pose_prediction_def simp_thms) simp

text \<open>
  C9 (no operation writes the pose block of \<open>Xi_hat\<close>, which keeps its initial zeros, and
  the correct step reads that initial pose, not the prediction): after any sequence of
  calls the first three rows of \<open>Xi_hat\<close> are zero; \<open>predict\<close> leaves \<open>Xi_hat\<close> as it is;
  \<open>update_measurements\<close> and \<open>update\<close> keep every row there was; neither depends on
  \<open>qt_hat\<close>; and a landmark seen for the first time is placed from the pose (0, 0, 0).
\<close>

theorem pose_block_never_written:
  "take 3 (Xi_hat (run almost_equal calls)) = zeros 3 1
   \<and> Xi_hat (after (predict almost_equal V k)) = Xi_hat k
   \<and> take (n_rows (Xi_hat k)) (Xi_hat (after (update_measurements m k))) = Xi_hat k
   \<and> take (n_rows (Xi_hat k)) (Xi_hat (after (update k ms))) = Xi_hat k
   \<and> after (update_measurements m (k\<lparr>qt_hat := q\<rparr>)) = (after (update_measurements m k))\<lparr>qt_hat := q\<rparr>
   \<and> after (update (k\<lparr>qt_hat := q\<rparr>) ms) = (after (update k ms))\<lparr>qt_hat := q\<rparr>
   \<and> (landmarks_dict (run almost_equal calls) (marker_id m) = None \<longrightarrow>
        Xi_hat (after (update_measurements m (run almost_equal calls))) =
          Xi_hat (run almost_equal calls) @
            [[0 + r m * cos (normalize_angle (phi m + 0))],
             [0 + r m * sin (normalize_angle (phi m + 0))]])"
proof -
  have initial: "landmarks_dict (run almost_equal calls) (marker_id m) = None \<longrightarrow>
        Xi_hat (after (update_measurements m (run almost_equal calls))) =
          Xi_hat (run almost_equal calls) @
            [[0 + r m * cos (normalize_angle (phi m + 0))],
             [0 + r m * sin (normalize_angle (phi m + 0))]]"
  proof
    assume unseen: "landmarks_dict (run almost_equal calls) (marker_id m) = None"
    show "Xi_hat (after (update_measurements m (run almost_equal calls))) =
          Xi_hat (run almost_equal calls) @
            [[0 + r m * cos (normalize_angle (phi m + 0))],
             [0 + r m * sin (normalize_angle (phi m + 0))]]"
      unfolding update_measurements_reads_initial_pose[OF run_pose_block unseen] by simp
  qed
  show ?thesis
    by (intro conjI)
      (rule run_pose_block predict_frame(2) update_measurements_keeps_rows update_frame(5)
        update_measurements_ignores_qt_hat update_ignores_qt_hat initial)+
qed

theorem pose_block_never_written_witness:
  "landmarks_dict (run (almost_equal_tol (1 / 10 ^ 12)) [Predict \<lparr>thetadot = 1, xdot = 1, ydot = 0\<rparr>]) 5 = None
   \<and> pose_prediction (run (almost_equal_tol (1 / 10 ^ 12)) [Predict \<lparr>thetadot = 1, xdot = 1, ydot = 0\<rparr>])
       = [[1], [sin 1], [1 - cos 1]]
   \<and> Xi_hat (after (update_measurements \<lparr>r = 1, phi = 0, marker_id = 5\<rparr>
         (run (almost_equal_tol (1 / 10 ^ 12)) [Predict \<lparr>thetadot = 1, xdot = 1, ydot = 0\<rparr>])))
       = [[0], [0], [0], [1], [0]]"
proof -
  have moved: "run (almost_equal_tol (1 / 10 ^ 12)) [Predict \<lparr>thetadot = 1, xdot = 1, ydot = 0\<rparr>]
      = KalmanFilter_new\<lparr>qt_hat := [[1], [sin 1], [1 - cos 1]]\<rparr>"
    by (simp only: run_def foldl.simps perform.simps predict_turn after_simps)
  have unseen: "landmarks_dict (KalmanFilter_new\<lparr>qt_hat := [[1], [sin 1], [1 - cos 1]]\<rparr>) 5 = None"
    by (simp add: KalmanFilter_new_def)
  show ?thesis
    using pose_block_never_written[of "almost_equal_tol (1 / 10 ^ 12)"
        "[Predict \<lparr>thetadot = 1, xdot = 1, ydot = 0\<rparr>]" "\<lparr>thetadot = 1, xdot = 1, ydot = 0\<rparr>"
        KalmanFilter_new "\<lparr>r = 1, phi = 0, marker_id = 5\<rparr>" "[]" "[]"] unseen
    unfolding moved
    by (simp add: pose_prediction_def normalize_angle_0 KalmanFilter_new_def zeros_def
        numeral_3_eq_3)
qed

text \<open>
  C10 (\<open>mt_hat\<close> is never assigned, so \<open>map_prediction\<close> returns the default-constructed
  empty matrix after every sequence of calls).
\<close>

theorem map_prediction_always_empty:
  "map_prediction (run almost_equal calls) = [] \<and> n_rows (map_prediction (run almost_equal calls)) = 0"
  by (simp add: map_prediction_def run_mt_hat n_rows_def)

section \<open>Properties of the simulator\<close>

lemma atan2_scale: "0 < c \<Longrightarrow> atan2 (c * b) (c * a) = atan2 b a"
  by (simp add: atan2_def zero_less_mult_iff mult_less_0_iff zero_le_mult_iff)

lemma sqrt_sum_factor:
  assumes "a \<noteq> 0"
  shows "sqrt (a\<^sup>2 + b\<^sup>2) = \<bar>a\<bar> * sqrt (1 + (b / a)\<^sup>2)"
proof -
  have "a\<^sup>2 + b\<^sup>2 = a\<^sup>2 * (1 + (b / a)\<^sup>2)"
    using assms by (simp add: field_simps power2_eq_square)
  then show ?thesis by (simp add: real_sqrt_mult)
qed

lemma cos_sin_arctan_ratio:
  assumes "a \<noteq> 0"
  shows "cos (arctan (b / a)) = \<bar>a\<bar> / sqrt (a\<^sup>2 + b\<^sup>2)"
    and "sin (arctan (b / a)) = (b / a) * \<bar>a\<bar> / sqrt (a\<^sup>2 + b\<^sup>2)"
proof -
  have pos: "0 < sqrt (1 + (b / a)\<^sup>2)"
    by (simp add: add_pos_nonneg)
  show "cos (arctan (b / a)) = \<bar>a\<bar> / sqrt (a\<^sup>2 + b\<^sup>2)"
    using assms pos by (simp add: cos_arctan sqrt_sum_factor)
  show "sin (arctan (b / a)) = (b / a) * \<bar>a\<bar> / sqrt (a\<^sup>2 + b\<^sup>2)"
    using assms pos by (simp add: sin_arctan sqrt_sum_factor)
qed

lemma cos_atan2:
  assumes "a \<noteq> 0 \<or> b \<noteq> 0"
  shows "cos (atan2 b a) = a / sqrt (a\<^sup>2 + b\<^sup>2)"
proof (cases "a = 0")
  case True
  with assms show ?thesis by (simp add: atan2_def)
next
  case False
  then show ?thesis
    using cos_sin_arctan_ratio(1)[OF False, of b] by (auto simp: atan2_def)
qed

lemma sin_atan2:
  assumes "a \<noteq> 0 \<or> b \<noteq> 0"
  shows "sin (atan2 b a) = b / sqrt (a\<^sup>2 + b\<^sup>2)"
proof (cases "a = 0")
  case True
  with assms show ?thesis by (auto simp: atan2_def)
next
  case False
  then show ?thesis
    using cos_sin_arctan_ratio(2)[OF False, of b] by (auto simp: atan2_def)
qed

lemma distance_nonneg: "0 \<le> distance p1 p2"
  by (simp add: distance_def)

lemma distance_on_circle:
  assumes "0 \<le> R"
  shows "distance (ox, oy) (ox + cos a * R, oy + sin a * R) = R"
proof -
  have "(cos a * R)\<^sup>2 + (sin a * R)\<^sup>2 = ((cos a)\<^sup>2 + (sin a)\<^sup>2) * R\<^sup>2"
    by (simp only: power_mult_distrib distrib_right)
  also have "\<dots> = R\<^sup>2"
    by simp
  finally have "(cos a * R)\<^sup>2 + (sin a * R)\<^sup>2 = R\<^sup>2" .
  then show ?thesis using assms by (simp add: distance_def)
qed

lemma bearing_on_circle:
  assumes "sqrt (dx\<^sup>2 + dy\<^sup>2) \<le> R"
  shows "atan2 (oy + sin (atan2 dy dx) * R - oy) (ox + cos (atan2 dy dx) * R - ox) = atan2 dy dx"
proof (cases "dx = 0 \<and> dy = 0")
  case True
  then have "0 \<le> R" using assms by simp
  with True show ?thesis by (simp add: atan2_def)
next
  case False
  then have nz: "dx \<noteq> 0 \<or> dy \<noteq> 0" by simp
  define d where "d = sqrt (dx\<^sup>2 + dy\<^sup>2)"
  have "dx\<^sup>2 + dy\<^sup>2 \<noteq> 0" using nz by (simp add: sum_power2_eq_zero_iff)
  then have "0 < dx\<^sup>2 + dy\<^sup>2" using sum_power2_ge_zero[of dx dy] by linarith
  then have d: "0 < d" by (simp add: d_def)
  have "d \<le> R" using assms by (simp add: d_def)
  with d have c: "0 < R / d" by simp
  have "atan2 (oy + sin (atan2 dy dx) * R - oy) (ox + cos (atan2 dy dx) * R - ox)
      = atan2 ((R / d) * dy) ((R / d) * dx)"
    by (simp add: cos_atan2[OF nz] sin_atan2[OF nz] d_def mult.commute)
  also have "\<dots> = atan2 dy dx" by (rule atan2_scale[OF c])
  finally show ?thesis .
qed

lemma collide_cases:
  "collide i s =
     (if distance (obstacles_x s ! i, obstacles_y s ! i) (x (true_pose s), y (true_pose s))
           \<le> obstacles_r s + COLLISION_RADIUS s
      then s\<lparr>true_pose := (true_pose s)
              \<lparr>x := obstacles_x s ! i
                     + cos (atan2 (y (true_pose s) - obstacles_y s ! i)
                                  (x (true_pose s) - obstacles_x s ! i))
                       * (obstacles_r s + COLLISION_RADIUS s),
               y := obstacles_y s ! i
                     + sin (atan2 (y (true_pose s) - obstacles_y s ! i)
                                  (x (true_pose s) - obstacles_x s ! i))
                       * (obstacles_r s + COLLISION_RADIUS s)\<rparr>\<rparr>
      else s)"
  by (simp add: collide_def Let_def)

lemma collide_keeps_obstacles:
  "obstacles_x (collide i s) = obstacles_x s" "obstacles_y (collide i s) = obstacles_y s"
  by (simp_all add: collide_cases)

lemma detect_collision_loop_in_range:
  "\<forall>j \<in> set js. j < length (obstacles_x s) \<and> j < length (obstacles_y s) \<Longrightarrow>
   detect_collision_loop js s = Inr (foldl (\<lambda>s' j. collide j s') s js)"
  by (induction js arbitrary: s) (simp_all add: collide_keeps_obstacles)

lemma detect_collision_in_order:
  assumes "length (obstacles_x s) = length (obstacles_y s)"
  shows "detect_collision s = Inr (foldl (\<lambda>s' j. collide j s') s [0..<length (obstacles_x s)])"
proof (cases "length (obstacles_x s) > 0")
  case True
  then show ?thesis
    using assms detect_collision_loop_in_range[of "[0..<length (obstacles_x s)]" s]
    by (simp add: detect_collision_def)
next
  case False
  then show ?thesis by (simp add: detect_collision_def)
qed

lemma almost_equal_tol_zero: "almost_equal_tol (1 / 10 ^ 12) 0 0"
  by (simp add: almost_equal_tol_def)

lemma almost_equal_tol_int:
  fixes v :: int
  assumes "v \<noteq> 0"
  shows "\<not> almost_equal_tol (1 / 10 ^ 12) (of_int v) 0"
proof -
  have "1 \<le> \<bar>v\<bar>" using assms by simp
  then have "(1::real) \<le> \<bar>of_int v\<bar>" by (metis of_int_1_le_iff of_int_abs)
  then show ?thesis by (simp add: almost_equal_tol_def)
qed

lemma collide_only_pose: "\<exists>p. collide i s = s\<lparr>true_pose := p\<rparr>"
proof -
  have "collide i s = s\<lparr>true_pose := true_pose (collide i s)\<rparr>"
    by (simp add: collide_cases)
  then show ?thesis by blast
qed

lemma foldl_collide_only_pose: "\<exists>p. foldl (\<lambda>s' j. collide j s') s js = s\<lparr>true_pose := p\<rparr>"
proof (induction js arbitrary: s)
  case Nil
  have "s = s\<lparr>true_pose := true_pose s\<rparr>" by simp
  then show ?case by (metis foldl_Nil)
next
  case (Cons j js)
  obtain p where p: "collide j s = s\<lparr>true_pose := p\<rparr>"
    using collide_only_pose by blast
  obtain p' where "foldl (\<lambda>s' j. collide j s') (collide j s) js = (collide j s)\<lparr>true_pose := p'\<rparr>"
    using Cons.IH by blast
  then have "foldl (\<lambda>s' j. collide j s') s (j # js) = s\<lparr>true_pose := p'\<rparr>"
    by (simp add: p)
  then show ?case by blast
qed

lemma collide_pose_depends:
  assumes "obstacles_x a = obstacles_x b" "obstacles_y a = obstacles_y b"
    "obstacles_r a = obstacles_r b" "COLLISION_RADIUS a = COLLISION_RADIUS b"
    "true_pose a = true_pose b"
  shows "true_pose (collide i a) = true_pose (collide i b)"
    "obstacles_r (collide i a) = obstacles_r (collide i b)"
    "COLLISION_RADIUS (collide i a) = COLLISION_RADIUS (collide i b)"
  using assms by (simp_all add: collide_cases)

lemma foldl_collide_pose_depends:
  assumes "obstacles_x a = obstacles_x b" "obstacles_y a = obstacles_y b"
    "obstacles_r a = obstacles_r b" "COLLISION_RADIUS a = COLLISION_RADIUS b"
    "true_pose a = true_pose b"
  shows "true_pose (foldl (\<lambda>s' j. collide j s') a js) = true_pose (foldl (\<lambda>s' j. collide j s') b js)"
  using assms
proof (induction js arbitrary: a b)
  case Nil
  then show ?case by simp
next
  case (Cons j js)
  show ?case
    unfolding foldl_Cons
  proof (rule Cons.IH)
    show "obstacles_x (collide j a) = obstacles_x (collide j b)"
      "obstacles_y (collide j a) = obstacles_y (collide j b)"
      by (simp_all add: collide_keeps_obstacles Cons.prems)
    show "true_pose (collide j a) = true_pose (collide j b)"
      "obstacles_r (collide j a) = obstacles_r (collide j b)"
      "COLLISION_RADIUS (collide j a) = COLLISION_RADIUS (collide j b)"
      by (rule collide_pose_depends[OF Cons.prems])+
  qed
qed

lemma wheel_cmd_callback_frame:
  "obstacles_x (wheel_cmd_callback almost_equal d c s) = obstacles_x s"
  "obstacles_y (wheel_cmd_callback almost_equal d c s) = obstacles_y s"
  "obstacles_r (wheel_cmd_callback almost_equal d c s) = obstacles_r s"
  "COLLISION_RADIUS (wheel_cmd_callback almost_equal d c s) = COLLISION_RADIUS s"
  "RATE (wheel_cmd_callback almost_equal d c s) = RATE s"
  "ENCODER_TICKS_PER_RAD (wheel_cmd_callback almost_equal d c s) = ENCODER_TICKS_PER_RAD s"
  "slippy_wheel_angles (wheel_cmd_callback almost_equal d c s) = slippy_wheel_angles s"
  "true_wheel_angles (wheel_cmd_callback almost_equal d c s) = true_wheel_angles s"
  "true_pose (wheel_cmd_callback almost_equal d c s) = true_pose s"
  "ddrive (wheel_cmd_callback almost_equal d c s) = ddrive s"
  by (simp_all add: wheel_cmd_callback_def Let_def)

lemma timer_callback_result:
  assumes "length (obstacles_x s) = length (obstacles_y s)"
  shows "\<exists>s2. timer_callback out_of_range forward_kinematics s = Inr s2
     \<and> true_wheel_angles s2 =
         \<lparr>left = left (true_wheel_angles s) + left (true_wheel_speeds s) * (1 / of_int (RATE s)),
          right = right (true_wheel_angles s) + right (true_wheel_speeds s) * (1 / of_int (RATE s))\<rparr>
     \<and> slippy_wheel_angles s2 =
         \<lparr>left = left (slippy_wheel_angles s)
                  + left (noisy_wheel_speeds s) * (1 + left_slip s) * (1 / of_int (RATE s)),
          right = right (slippy_wheel_angles s)
                  + right (noisy_wheel_speeds s) * (1 + right_slip s) * (1 / of_int (RATE s))\<rparr>
     \<and> sensor_data s2 =
         \<lparr>left_encoder = to_int out_of_range (left (slippy_wheel_angles s2) * ENCODER_TICKS_PER_RAD s),
          right_encoder = to_int out_of_range (right (slippy_wheel_angles s2) * ENCODER_TICKS_PER_RAD s)\<rparr>
     \<and> true_pose s2 =
         true_pose (foldl (\<lambda>s' j. collide j s')
           (s\<lparr>true_pose := fst (forward_kinematics (ddrive s) (true_pose s) (true_wheel_angles s2))\<rparr>)
           [0..<length (obstacles_x s)])"
proof -
  define TA where "TA = \<lparr>left = left (true_wheel_angles s) + left (true_wheel_speeds s) * (1 / of_int (RATE s)),
          right = right (true_wheel_angles s) + right (true_wheel_speeds s) * (1 / of_int (RATE s))\<rparr>"
  define SA where "SA = \<lparr>left = left (slippy_wheel_angles s)
                  + left (noisy_wheel_speeds s) * (1 + left_slip s) * (1 / of_int (RATE s)),
          right = right (slippy_wheel_angles s)
                  + right (noisy_wheel_speeds s) * (1 + right_slip s) * (1 / of_int (RATE s))\<rparr>"
  define SD where "SD = \<lparr>left_encoder = to_int out_of_range (left SA * ENCODER_TICKS_PER_RAD s),
          right_encoder = to_int out_of_range (right SA * ENCODER_TICKS_PER_RAD s)\<rparr>"
  define s4 where "s4 = s\<lparr>true_wheel_angles := TA, slippy_wheel_angles := SA, sensor_data := SD,
      true_pose := fst (forward_kinematics (ddrive s) (true_pose s) TA),
      ddrive := snd (forward_kinematics (ddrive s) (true_pose s) TA)\<rparr>"
  define s5 where "s5 = foldl (\<lambda>s' j. collide j s') s4 [0..<length (obstacles_x s)]"
  define fin where "fin = (\<lambda>s5 :: 'a Nusim.
      if 100 \<le> count s5
      then s5\<lparr>step := (step s5 + 1) mod 2 ^ 64, count := 0\<rparr>
      else s5\<lparr>step := (step s5 + 1) mod 2 ^ 64, count := (count s5 + 1) mod 2 ^ 64\<rparr>)"
  have lens4: "length (obstacles_x s4) = length (obstacles_y s4)"
    using assms by (simp add: s4_def)
  have dc: "detect_collision s4 = Inr s5"
    using detect_collision_in_order[OF lens4] by (simp add: s5_def s4_def)
  obtain p where s5: "s5 = s4\<lparr>true_pose := p\<rparr>"
    unfolding s5_def using foldl_collide_only_pose by blast
  have pose: "true_pose s5 = true_pose (foldl (\<lambda>s' j. collide j s')
           (s\<lparr>true_pose := fst (forward_kinematics (ddrive s) (true_pose s) TA)\<rparr>)
           [0..<length (obstacles_x s)])"
    unfolding s5_def
    by (rule foldl_collide_pose_depends) (simp_all add: s4_def)
  have tc: "timer_callback out_of_range forward_kinematics s = and_then (detect_collision s4) (\<lambda>s5. Inr (fin s5))"
    unfolding timer_callback_def Let_def s4_def SD_def SA_def TA_def fin_def ..
  have res: "timer_callback out_of_range forward_kinematics s = Inr (fin s5)"
    unfolding tc dc by (simp add: and_then_def)
  have fields: "true_wheel_angles (fin s5) = TA" "slippy_wheel_angles (fin s5) = SA"
    "sensor_data (fin s5) = SD" "true_pose (fin s5) = true_pose s5"
    by (simp_all add: fin_def s5 s4_def)
  have "timer_callback out_of_range forward_kinematics s = Inr (fin s5)
     \<and> true_wheel_angles (fin s5) = TA
     \<and> slippy_wheel_angles (fin s5) = SA
     \<and> sensor_data (fin s5) =
         \<lparr>left_encoder = to_int out_of_range (left (slippy_wheel_angles (fin s5)) * ENCODER_TICKS_PER_RAD s),
          right_encoder = to_int out_of_range (right (slippy_wheel_angles (fin s5)) * ENCODER_TICKS_PER_RAD s)\<rparr>
     \<and> true_pose (fin s5) =
         true_pose (foldl (\<lambda>s' j. collide j s')
           (s\<lparr>true_pose := fst (forward_kinematics (ddrive s) (true_pose s) (true_wheel_angles (fin s5)))\<rparr>)
           [0..<length (obstacles_x s)])"
    unfolding fields using res pose SD_def by simp
  then show ?thesis
    unfolding TA_def SA_def by (rule exI[of _ "fin s5"])
qed

lemma wheel_cmd_callback_speeds:
  "noisy_wheel_speeds (wheel_cmd_callback almost_equal d c s) =
     \<lparr>left = of_int (left_velocity c) * MOTOR_CMD_PER_RAD_SEC s
             + (if almost_equal (of_int (left_velocity c)) 0 then 0 else left_noise_draw d),
      right = of_int (right_velocity c) * MOTOR_CMD_PER_RAD_SEC s
             + (if almost_equal (of_int (right_velocity c)) 0 then 0 else right_noise_draw d)\<rparr>"
  "true_wheel_speeds (wheel_cmd_callback almost_equal d c s) =
     \<lparr>left = of_int (left_velocity c) * MOTOR_CMD_PER_RAD_SEC s,
      right = of_int (right_velocity c) * MOTOR_CMD_PER_RAD_SEC s\<rparr>"
  "left_slip (wheel_cmd_callback almost_equal d c s) =
     (if almost_equal (SLIP_FRACTION s) 0 then left_slip s else left_slip_draw d)"
  "right_slip (wheel_cmd_callback almost_equal d c s) =
     (if almost_equal (SLIP_FRACTION s) 0 then right_slip s else right_slip_draw d)"
  by (simp_all add: wheel_cmd_callback_def Let_def)

lemma sample_draws_fields:
  "left_noise_draw (fst (sample_draws normal_distribution uniform_real_distribution
       almost_equal c s g)) =
     (if almost_equal (of_int (left_velocity c)) 0 then 0
      else fst (normal_distribution 0 (INPUT_NOISE s) g))"
  "right_noise_draw (fst (sample_draws normal_distribution uniform_real_distribution
       almost_equal c s g)) =
     (if almost_equal (of_int (right_velocity c)) 0 then 0
      else fst (normal_distribution 0 (INPUT_NOISE s)
             (if almost_equal (of_int (left_velocity c)) 0 then g
              else snd (normal_distribution 0 (INPUT_NOISE s) g))))"
  "right_slip_draw (fst (sample_draws normal_distribution uniform_real_distribution
       almost_equal c s g)) =
     (if almost_equal (SLIP_FRACTION s) 0 then 0
      else fst (uniform_real_distribution (- SLIP_FRACTION s) (SLIP_FRACTION s)
             (if almost_equal (of_int (right_velocity c)) 0
              then (if almost_equal (of_int (left_velocity c)) 0 then g
                    else snd (normal_distribution 0 (INPUT_NOISE s) g))
              else snd (normal_distribution 0 (INPUT_NOISE s)
                     (if almost_equal (of_int (left_velocity c)) 0 then g
                      else snd (normal_distribution 0 (INPUT_NOISE s) g))))))"
  "left_slip_draw (fst (sample_draws normal_distribution uniform_real_distribution
       almost_equal c s g)) =
     (if almost_equal (SLIP_FRACTION s) 0 then 0
      else fst (uniform_real_distribution (- SLIP_FRACTION s) (SLIP_FRACTION s)
             (snd (uniform_real_distribution (- SLIP_FRACTION s) (SLIP_FRACTION s)
               (if almost_equal (of_int (right_velocity c)) 0
                then (if almost_equal (of_int (left_velocity c)) 0 then g
                      else snd (normal_distribution 0 (INPUT_NOISE s) g))
                else snd (normal_distribution 0 (INPUT_NOISE s)
                       (if almost_equal (of_int (left_velocity c)) 0 then g
                        else snd (normal_distribution 0 (INPUT_NOISE s) g))))))))"
  by (simp_all add: sample_draws_def Let_def)

lemma wheel_cmd_callback_sampled_state:
  "fst (wheel_cmd_callback_sampled normal_distribution uniform_real_distribution almost_equal
         c s g) =
     wheel_cmd_callback almost_equal
       (fst (sample_draws normal_distribution uniform_real_distribution almost_equal c s g)) c s"
  by (simp add: wheel_cmd_callback_sampled_def Let_def)

lemma int32_range: "- (2 ^ 31) \<le> int32 z" "int32 z < 2 ^ 31"
proof -
  have "0 \<le> (z + 2 ^ 31) mod 2 ^ 32" "(z + 2 ^ 31) mod 2 ^ 32 < (2 ^ 32 :: int)"
    by simp_all
  then show "- (2 ^ 31) \<le> int32 z" "int32 z < 2 ^ 31"
    by (simp_all add: int32_def)
qed

lemma to_int_range: "- (2 ^ 31) \<le> to_int out_of_range v" "to_int out_of_range v < 2 ^ 31"
  using int32_range[of "out_of_range v"] by (simp_all add: to_int_def Let_def)

lemma example_sim_fields:
  "obstacles_x example_sim = [1]" "obstacles_y example_sim = [0]"
  "MOTOR_CMD_PER_RAD_SEC example_sim = 1" "RATE example_sim = 200"
  "SLIP_FRACTION example_sim = 1 / 2"
  "left_slip example_sim = 0" "right_slip example_sim = 0"
  "slippy_wheel_angles example_sim = \<lparr>left = 0, right = 0\<rparr>"
  "true_wheel_angles example_sim = \<lparr>left = 0, right = 0\<rparr>"
  "INPUT_NOISE example_sim = 1" "ENCODER_TICKS_PER_RAD example_sim = 100"
  by (simp_all add: example_sim_def)

lemma tape_uniform_within:
  assumes "a \<le> b"
  shows "a \<le> fst (tape_uniform a b h) \<and> fst (tape_uniform a b h) \<le> b"
proof (cases h)
  case Nil
  with assms show ?thesis by (simp add: tape_uniform_def)
next
  case (Cons u rest)
  define m where "m = max 0 (min 1 u)"
  have m: "0 \<le> m" "m \<le> 1" by (simp_all add: m_def)
  have "0 \<le> (b - a) * m" using assms m(1) by simp
  moreover have "(b - a) * m \<le> b - a" using assms m(2) by (simp add: mult_left_le)
  ultimately show ?thesis by (simp add: tape_uniform_def Cons m_def[symmetric])
qed

lemma almost_equal_tol_two: "\<not> almost_equal_tol (1 / 10 ^ 12) (of_int 2) 0"
  by (rule almost_equal_tol_int) simp

subsection \<open>The claims about the simulator\<close>

text \<open>
  C6 (the noise sample produces the "true" wheel speed used for the ground-truth
  integration; slip reaches only the encoder path). As stated, the first half fails:
  for the command (2, 2) with \<open>motor_cmd_per_rad_sec = 1\<close> and a left draw of 1/2 the true
  left wheel speed is 2, not 2 + 1/2.
\<close>

theorem true_wheel_speed_is_noise_free:
  "left (true_wheel_speeds (wheel_cmd_callback (almost_equal_tol (1 / 10 ^ 12))
        \<lparr>left_noise_draw = 1 / 2, right_noise_draw = 1 / 4, right_slip_draw = 1 / 10,
         left_slip_draw = - 1 / 10\<rparr>
        \<lparr>left_velocity = 2, right_velocity = 2\<rparr> example_sim)) = 2
   \<and> of_int (left_velocity \<lparr>left_velocity = 2, right_velocity = 2\<rparr>)
         * MOTOR_CMD_PER_RAD_SEC example_sim
       + left_noise_draw \<lparr>left_noise_draw = 1 / 2, right_noise_draw = 1 / 4,
           right_slip_draw = 1 / 10, left_slip_draw = - 1 / 10\<rparr> = 5 / 2
   \<and> left (true_wheel_speeds (wheel_cmd_callback (almost_equal_tol (1 / 10 ^ 12))
        \<lparr>left_noise_draw = 1 / 2, right_noise_draw = 1 / 4, right_slip_draw = 1 / 10,
         left_slip_draw = - 1 / 10\<rparr>
        \<lparr>left_velocity = 2, right_velocity = 2\<rparr> example_sim))
       \<noteq> of_int (left_velocity \<lparr>left_velocity = 2, right_velocity = 2\<rparr>)
           * MOTOR_CMD_PER_RAD_SEC example_sim
         + left_noise_draw \<lparr>left_noise_draw = 1 / 2, right_noise_draw = 1 / 4,
             right_slip_draw = 1 / 10, left_slip_draw = - 1 / 10\<rparr>"
proof -
  have "true_wheel_speeds (wheel_cmd_callback (almost_equal_tol (1 / 10 ^ 12))
        \<lparr>left_noise_draw = 1 / 2, right_noise_draw = 1 / 4, right_slip_draw = 1 / 10,
         left_slip_draw = - 1 / 10\<rparr>
        \<lparr>left_velocity = 2, right_velocity = 2\<rparr> example_sim) = \<lparr>left = 2, right = 2\<rparr>"
    by (simp add: wheel_cmd_callback_speeds(2) example_sim_fields)
  then show ?thesis by (simp add: example_sim_fields)
qed

text \<open>
  C6, as amended: for each wheel whose command is not almost zero, the sample drawn
  from the zero-mean Gaussian distribution (\<open>std::normal_distribution\<close> with mean 0 and
  second parameter \<open>INPUT_NOISE\<close>) is added to the commanded speed and gives the noisy
  wheel speed; the true wheel speed, used for the ground-truth integration, is the
  commanded speed without noise. When slip is enabled (the slip range is not almost
  zero), the slip fraction of each wheel is drawn from the uniform distribution on
  \<open>[-SLIP_FRACTION, SLIP_FRACTION]\<close>, and it lies in that range for a distribution that
  keeps its samples within its bounds. One timer tick later, the slipping wheel angles,
  and from them the 32-bit encoder ticks, have advanced by the noisy speed times
  \<open>1 + slip\<close>; the true wheel angles have advanced by the commanded speed alone, and the
  true pose is computed from them and the previous pose by the forward kinematics and
  the collision check: neither depends on a noise or slip sample.
\<close>

theorem noise_and_slip_reach_only_the_encoders:
  fixes s s1 :: "'d Nusim" and g g1 g2 :: 'g
    and normal_distribution uniform_real_distribution :: "real \<Rightarrow> real \<Rightarrow> 'g \<Rightarrow> real \<times> 'g"
    and almost_equal :: "real \<Rightarrow> real \<Rightarrow> bool" and c :: WheelCommands
  defines "s1 \<equiv> fst (wheel_cmd_callback_sampled normal_distribution uniform_real_distribution
                      almost_equal c s g)"
    and "g1 \<equiv> (if almost_equal (of_int (left_velocity c)) 0 then g
               else snd (normal_distribution 0 (INPUT_NOISE s) g))"
  defines "g2 \<equiv> (if almost_equal (of_int (right_velocity c)) 0 then g1
               else snd (normal_distribution 0 (INPUT_NOISE s) g1))"
  assumes "length (obstacles_x s) = length (obstacles_y s)"
    and "\<forall>a b h. a \<le> b \<longrightarrow>
           a \<le> fst (uniform_real_distribution a b h) \<and> fst (uniform_real_distribution a b h) \<le> b"
  shows
    "noisy_wheel_speeds s1 =
       \<lparr>left = of_int (left_velocity c) * MOTOR_CMD_PER_RAD_SEC s
               + (if almost_equal (of_int (left_velocity c)) 0 then 0
                  else fst (normal_distribution 0 (INPUT_NOISE s) g)),
        right = of_int (right_velocity c) * MOTOR_CMD_PER_RAD_SEC s
               + (if almost_equal (of_int (right_velocity c)) 0 then 0
                  else fst (normal_distribution 0 (INPUT_NOISE s) g1))\<rparr>
     \<and> true_wheel_speeds s1 =
       \<lparr>left = of_int (left_velocity c) * MOTOR_CMD_PER_RAD_SEC s,
        right = of_int (right_velocity c) * MOTOR_CMD_PER_RAD_SEC s\<rparr>
     \<and> right_slip s1 =
         (if almost_equal (SLIP_FRACTION s) 0 then right_slip s
          else fst (uniform_real_distribution (- SLIP_FRACTION s) (SLIP_FRACTION s) g2))
     \<and> left_slip s1 =
         (if almost_equal (SLIP_FRACTION s) 0 then left_slip s
          else fst (uniform_real_distribution (- SLIP_FRACTION s) (SLIP_FRACTION s)
                 (snd (uniform_real_distribution (- SLIP_FRACTION s) (SLIP_FRACTION s) g2))))
     \<and> (\<not> almost_equal (SLIP_FRACTION s) 0 \<and> 0 \<le> SLIP_FRACTION s \<longrightarrow>
          - SLIP_FRACTION s \<le> right_slip s1 \<and> right_slip s1 \<le> SLIP_FRACTION s
          \<and> - SLIP_FRACTION s \<le> left_slip s1 \<and> left_slip s1 \<le> SLIP_FRACTION s)
     \<and> (\<exists>s2. timer_callback out_of_range forward_kinematics s1 = Inr s2
          \<and> slippy_wheel_angles s2 =
              \<lparr>left = left (slippy_wheel_angles s)
                       + left (noisy_wheel_speeds s1) * (1 + left_slip s1) * (1 / of_int (RATE s)),
               right = right (slippy_wheel_angles s)
                       + right (noisy_wheel_speeds s1) * (1 + right_slip s1) * (1 / of_int (RATE s))\<rparr>
          \<and> sensor_data s2 =
              \<lparr>left_encoder =
                 to_int out_of_range (left (slippy_wheel_angles s2) * ENCODER_TICKS_PER_RAD s),
               right_encoder =
                 to_int out_of_range (right (slippy_wheel_angles s2) * ENCODER_TICKS_PER_RAD s)\<rparr>
          \<and> - (2 ^ 31) \<le> left_encoder (sensor_data s2) \<and> left_encoder (sensor_data s2) < 2 ^ 31
          \<and> - (2 ^ 31) \<le> right_encoder (sensor_data s2) \<and> right_encoder (sensor_data s2) < 2 ^ 31
          \<and> true_wheel_angles s2 =
              \<lparr>left = left (true_wheel_angles s)
                       + of_int (left_velocity c) * MOTOR_CMD_PER_RAD_SEC s * (1 / of_int (RATE s)),
               right = right (true_wheel_angles s)
                       + of_int (right_velocity c) * MOTOR_CMD_PER_RAD_SEC s * (1 / of_int (RATE s))\<rparr>
          \<and> true_pose s2 =
              true_pose (foldl (\<lambda>s' j. collide j s')
                (s\<lparr>true_pose :=
                     fst (forward_kinematics (ddrive s) (true_pose s) (true_wheel_angles s2))\<rparr>)
                [0..<length (obstacles_x s)]))"
proof -
  define d where "d = fst (sample_draws normal_distribution uniform_real_distribution
      almost_equal c s g)"
  have s1: "s1 = wheel_cmd_callback almost_equal d c s"
    unfolding s1_def d_def by (rule wheel_cmd_callback_sampled_state)
  note cb = wheel_cmd_callback_speeds[of almost_equal d c s, folded s1]
  note fr = wheel_cmd_callback_frame[of almost_equal d c s, folded s1]
  have dr: "left_noise_draw d =
       (if almost_equal (of_int (left_velocity c)) 0 then 0
        else fst (normal_distribution 0 (INPUT_NOISE s) g))"
    "right_noise_draw d =
       (if almost_equal (of_int (right_velocity c)) 0 then 0
        else fst (normal_distribution 0 (INPUT_NOISE s) g1))"
    "right_slip_draw d =
       (if almost_equal (SLIP_FRACTION s) 0 then 0
        else fst (uniform_real_distribution (- SLIP_FRACTION s) (SLIP_FRACTION s) g2))"
    "left_slip_draw d =
       (if almost_equal (SLIP_FRACTION s) 0 then 0
        else fst (uniform_real_distribution (- SLIP_FRACTION s) (SLIP_FRACTION s)
               (snd (uniform_real_distribution (- SLIP_FRACTION s) (SLIP_FRACTION s) g2))))"
    unfolding d_def g2_def g1_def by (rule sample_draws_fields)+
  have noisy: "noisy_wheel_speeds s1 =
       \<lparr>left = of_int (left_velocity c) * MOTOR_CMD_PER_RAD_SEC s
               + (if almost_equal (of_int (left_velocity c)) 0 then 0
                  else fst (normal_distribution 0 (INPUT_NOISE s) g)),
        right = of_int (right_velocity c) * MOTOR_CMD_PER_RAD_SEC s
               + (if almost_equal (of_int (right_velocity c)) 0 then 0
                  else fst (normal_distribution 0 (INPUT_NOISE s) g1))\<rparr>"
    unfolding cb(1) dr by simp
  have rs: "right_slip s1 =
         (if almost_equal (SLIP_FRACTION s) 0 then right_slip s
          else fst (uniform_real_distribution (- SLIP_FRACTION s) (SLIP_FRACTION s) g2))"
    unfolding cb(4) dr by simp
  have ls: "left_slip s1 =
         (if almost_equal (SLIP_FRACTION s) 0 then left_slip s
          else fst (uniform_real_distribution (- SLIP_FRACTION s) (SLIP_FRACTION s)
                 (snd (uniform_real_distribution (- SLIP_FRACTION s) (SLIP_FRACTION s) g2))))"
    unfolding cb(3) dr by simp
  have bounds: "\<not> almost_equal (SLIP_FRACTION s) 0 \<and> 0 \<le> SLIP_FRACTION s \<longrightarrow>
          - SLIP_FRACTION s \<le> right_slip s1 \<and> right_slip s1 \<le> SLIP_FRACTION s
          \<and> - SLIP_FRACTION s \<le> left_slip s1 \<and> left_slip s1 \<le> SLIP_FRACTION s"
  proof
    assume en: "\<not> almost_equal (SLIP_FRACTION s) 0 \<and> 0 \<le> SLIP_FRACTION s"
    then have ord: "- SLIP_FRACTION s \<le> SLIP_FRACTION s" by simp
    from assms(5) ord have within: "- SLIP_FRACTION s
          \<le> fst (uniform_real_distribution (- SLIP_FRACTION s) (SLIP_FRACTION s) h)
        \<and> fst (uniform_real_distribution (- SLIP_FRACTION s) (SLIP_FRACTION s) h)
          \<le> SLIP_FRACTION s" for h
      by blast
    show "- SLIP_FRACTION s \<le> right_slip s1 \<and> right_slip s1 \<le> SLIP_FRACTION s
          \<and> - SLIP_FRACTION s \<le> left_slip s1 \<and> left_slip s1 \<le> SLIP_FRACTION s"
      unfolding rs ls using en within by simp
  qed
  have lens: "length (obstacles_x s1) = length (obstacles_y s1)"
    using assms(4) by (simp only: fr)
  obtain s2 where tc: "timer_callback out_of_range forward_kinematics s1 = Inr s2"
    and ta: "true_wheel_angles s2 =
         \<lparr>left = left (true_wheel_angles s1) + left (true_wheel_speeds s1) * (1 / of_int (RATE s1)),
          right = right (true_wheel_angles s1) + right (true_wheel_speeds s1) * (1 / of_int (RATE s1))\<rparr>"
    and sa: "slippy_wheel_angles s2 =
         \<lparr>left = left (slippy_wheel_angles s1)
                  + left (noisy_wheel_speeds s1) * (1 + left_slip s1) * (1 / of_int (RATE s1)),
          right = right (slippy_wheel_angles s1)
                  + right (noisy_wheel_speeds s1) * (1 + right_slip s1) * (1 / of_int (RATE s1))\<rparr>"
    and sd: "sensor_data s2 =
         \<lparr>left_encoder =
            to_int out_of_range (left (slippy_wheel_angles s2) * ENCODER_TICKS_PER_RAD s1),
          right_encoder =
            to_int out_of_range (right (slippy_wheel_angles s2) * ENCODER_TICKS_PER_RAD s1)\<rparr>"
    and tp: "true_pose s2 =
         true_pose (foldl (\<lambda>s' j. collide j s')
           (s1\<lparr>true_pose := fst (forward_kinematics (ddrive s1) (true_pose s1) (true_wheel_angles s2))\<rparr>)
           [0..<length (obstacles_x s1)])"
    using timer_callback_result[OF lens, of out_of_range forward_kinematics] by blast
  have tp': "true_pose s2 =
         true_pose (foldl (\<lambda>s' j. collide j s')
           (s\<lparr>true_pose := fst (forward_kinematics (ddrive s) (true_pose s) (true_wheel_angles s2))\<rparr>)
           [0..<length (obstacles_x s)])"
    unfolding tp fr
    by (rule foldl_collide_pose_depends) (simp_all add: fr)
  have ta': "true_wheel_angles s2 =
              \<lparr>left = left (true_wheel_angles s)
                       + of_int (left_velocity c) * MOTOR_CMD_PER_RAD_SEC s * (1 / of_int (RATE s)),
               right = right (true_wheel_angles s)
                       + of_int (right_velocity c) * MOTOR_CMD_PER_RAD_SEC s * (1 / of_int (RATE s))\<rparr>"
    unfolding ta fr cb(2) by simp
  have sa': "slippy_wheel_angles s2 =
              \<lparr>left = left (slippy_wheel_angles s)
                       + left (noisy_wheel_speeds s1) * (1 + left_slip s1) * (1 / of_int (RATE s)),
               right = right (slippy_wheel_angles s)
                       + right (noisy_wheel_speeds s1) * (1 + right_slip s1) * (1 / of_int (RATE s))\<rparr>"
    unfolding sa fr by simp
  have sd': "sensor_data s2 =
              \<lparr>left_encoder =
                 to_int out_of_range (left (slippy_wheel_angles s2) * ENCODER_TICKS_PER_RAD s),
               right_encoder =
                 to_int out_of_range (right (slippy_wheel_angles s2) * ENCODER_TICKS_PER_RAD s)\<rparr>"
    using sd by (simp only: fr)
  have enc: "- (2 ^ 31) \<le> left_encoder (sensor_data s2)" "left_encoder (sensor_data s2) < 2 ^ 31"
    "- (2 ^ 31) \<le> right_encoder (sensor_data s2)" "right_encoder (sensor_data s2) < 2 ^ 31"
    unfolding sd' by (simp_all only: SensorData.select_convs to_int_range)
  have timer: "\<exists>s2. timer_callback out_of_range forward_kinematics s1 = Inr s2
          \<and> slippy_wheel_angles s2 =
              \<lparr>left = left (slippy_wheel_angles s)
                       + left (noisy_wheel_speeds s1) * (1 + left_slip s1) * (1 / of_int (RATE s)),
               right = right (slippy_wheel_angles s)
                       + right (noisy_wheel_speeds s1) * (1 + right_slip s1) * (1 / of_int (RATE s))\<rparr>
          \<and> sensor_data s2 =
              \<lparr>left_encoder =
                 to_int out_of_range (left (slippy_wheel_angles s2) * ENCODER_TICKS_PER_RAD s),
               right_encoder =
                 to_int out_of_range (right (slippy_wheel_angles s2) * ENCODER_TICKS_PER_RAD s)\<rparr>
          \<and> - (2 ^ 31) \<le> left_encoder (sensor_data s2) \<and> left_encoder (sensor_data s2) < 2 ^ 31
          \<and> - (2 ^ 31) \<le> right_encoder (sensor_data s2) \<and> right_encoder (sensor_data s2) < 2 ^ 31
          \<and> true_wheel_angles s2 =
              \<lparr>left = left (true_wheel_angles s)
                       + of_int (left_velocity c) * MOTOR_CMD_PER_RAD_SEC s * (1 / of_int (RATE s)),
               right = right (true_wheel_angles s)
                       + of_int (right_velocity c) * MOTOR_CMD_PER_RAD_SEC s * (1 / of_int (RATE s))\<rparr>
          \<and> true_pose s2 =
              true_pose (foldl (\<lambda>s' j. collide j s')
                (s\<lparr>true_pose :=
                     fst (forward_kinematics (ddrive s) (true_pose s) (true_wheel_angles s2))\<rparr>)
                [0..<length (obstacles_x s)])"
    using tc sa' sd' enc ta' tp' by blast
  show ?thesis
    by (intro conjI) (rule noisy cb(2) rs ls bounds timer)+
qed

theorem noise_and_slip_reach_only_the_encoders_witness:
  "noisy_wheel_speeds (fst (wheel_cmd_callback_sampled tape_normal tape_uniform
        (almost_equal_tol (1 / 10 ^ 12)) \<lparr>left_velocity = 2, right_velocity = 2\<rparr> example_sim
        [1 / 2, 1 / 4, 3 / 5, 2 / 5])) = \<lparr>left = 5 / 2, right = 9 / 4\<rparr>
   \<and> true_wheel_speeds (fst (wheel_cmd_callback_sampled tape_normal tape_uniform
        (almost_equal_tol (1 / 10 ^ 12)) \<lparr>left_velocity = 2, right_velocity = 2\<rparr> example_sim
        [1 / 2, 1 / 4, 3 / 5, 2 / 5])) = \<lparr>left = 2, right = 2\<rparr>
   \<and> right_slip (fst (wheel_cmd_callback_sampled tape_normal tape_uniform
        (almost_equal_tol (1 / 10 ^ 12)) \<lparr>left_velocity = 2, right_velocity = 2\<rparr> example_sim
        [1 / 2, 1 / 4, 3 / 5, 2 / 5])) = 1 / 10
   \<and> left_slip (fst (wheel_cmd_callback_sampled tape_normal tape_uniform
        (almost_equal_tol (1 / 10 ^ 12)) \<lparr>left_velocity = 2, right_velocity = 2\<rparr> example_sim
        [1 / 2, 1 / 4, 3 / 5, 2 / 5])) = - 1 / 10
   \<and> SLIP_FRACTION example_sim = 1 / 2
   \<and> (\<exists>s2. timer_callback (\<lambda>v. - (2 ^ 31)) (\<lambda>dd pose angles. (pose, dd))
          (fst (wheel_cmd_callback_sampled tape_normal tape_uniform
            (almost_equal_tol (1 / 10 ^ 12)) \<lparr>left_velocity = 2, right_velocity = 2\<rparr> example_sim
            [1 / 2, 1 / 4, 3 / 5, 2 / 5])) = Inr s2
        \<and> true_wheel_angles s2 = \<lparr>left = 1 / 100, right = 1 / 100\<rparr>
        \<and> slippy_wheel_angles s2 = \<lparr>left = 9 / 800, right = 99 / 8000\<rparr>
        \<and> sensor_data s2 = \<lparr>left_encoder = 1, right_encoder = 1\<rparr>)"
proof -
  let ?c = "\<lparr>left_velocity = 2, right_velocity = 2\<rparr>"
  let ?g = "[1 / 2, 1 / 4, 3 / 5, 2 / 5 :: real]"
  let ?s1 = "fst (wheel_cmd_callback_sampled tape_normal tape_uniform
        (almost_equal_tol (1 / 10 ^ 12)) ?c example_sim ?g)"
  have lens: "length (obstacles_x example_sim) = length (obstacles_y example_sim)"
    by (simp add: example_sim_fields)
  have within: "\<forall>a b h. a \<le> b \<longrightarrow>
      a \<le> fst (tape_uniform a b h) \<and> fst (tape_uniform a b h) \<le> b"
    using tape_uniform_within by blast
  have l: "\<not> almost_equal_tol (1 / 10 ^ 12) (of_int (left_velocity ?c)) 0"
    and r: "\<not> almost_equal_tol (1 / 10 ^ 12) (of_int (right_velocity ?c)) 0"
    using almost_equal_tol_two by simp_all
  have slip: "\<not> almost_equal_tol (1 / 10 ^ 12) (SLIP_FRACTION example_sim) 0"
    by (simp add: example_sim_fields almost_equal_tol_def)
  have cast: "to_int p (9 / 8) = 1" "to_int p (99 / 80) = 1" for p
    by (simp_all add: to_int_def)
  note th = noise_and_slip_reach_only_the_encoders[where normal_distribution = tape_normal
      and uniform_real_distribution = tape_uniform
      and almost_equal = "almost_equal_tol (1 / 10 ^ 12)"
      and c = ?c and s = example_sim and g = ?g
      and out_of_range = "\<lambda>v. - (2 ^ 31)"
      and forward_kinematics = "\<lambda>dd pose angles. (pose, dd)", OF lens within]
  from th l r slip have state:
    "noisy_wheel_speeds ?s1 = \<lparr>left = 5 / 2, right = 9 / 4\<rparr>"
    "true_wheel_speeds ?s1 = \<lparr>left = 2, right = 2\<rparr>"
    "right_slip ?s1 = 1 / 10" "left_slip ?s1 = - 1 / 10"
    by (simp_all add: example_sim_fields tape_normal_def tape_uniform_def)
  from th obtain s2 where
    tc: "timer_callback (\<lambda>v. - (2 ^ 31)) (\<lambda>dd pose angles. (pose, dd)) ?s1 = Inr s2"
    and sa: "slippy_wheel_angles s2 =
       \<lparr>left = left (slippy_wheel_angles example_sim)
                + left (noisy_wheel_speeds ?s1) * (1 + left_slip ?s1)
                  * (1 / of_int (RATE example_sim)),
        right = right (slippy_wheel_angles example_sim)
                + right (noisy_wheel_speeds ?s1) * (1 + right_slip ?s1)
                  * (1 / of_int (RATE example_sim))\<rparr>"
    and sd: "sensor_data s2 =
       \<lparr>left_encoder = to_int (\<lambda>v. - (2 ^ 31))
           (left (slippy_wheel_angles s2) * ENCODER_TICKS_PER_RAD example_sim),
        right_encoder = to_int (\<lambda>v. - (2 ^ 31))
           (right (slippy_wheel_angles s2) * ENCODER_TICKS_PER_RAD example_sim)\<rparr>"
    and ta: "true_wheel_angles s2 =
       \<lparr>left = left (true_wheel_angles example_sim)
                + of_int (left_velocity ?c) * MOTOR_CMD_PER_RAD_SEC example_sim
                  * (1 / of_int (RATE example_sim)),
        right = right (true_wheel_angles example_sim)
                + of_int (right_velocity ?c) * MOTOR_CMD_PER_RAD_SEC example_sim
                  * (1 / of_int (RATE example_sim))\<rparr>"
    by blast
  have sa': "slippy_wheel_angles s2 = \<lparr>left = 9 / 800, right = 99 / 8000\<rparr>"
    unfolding sa state by (simp add: example_sim_fields)
  have sd': "sensor_data s2 = \<lparr>left_encoder = 1, right_encoder = 1\<rparr>"
    unfolding sd sa' by (simp add: example_sim_fields cast)
  have ta': "true_wheel_angles s2 = \<lparr>left = 1 / 100, right = 1 / 100\<rparr>"
    unfolding ta by (simp add: example_sim_fields)
  have "\<exists>s2. timer_callback (\<lambda>v. - (2 ^ 31)) (\<lambda>dd pose angles. (pose, dd)) ?s1 = Inr s2
        \<and> true_wheel_angles s2 = \<lparr>left = 1 / 100, right = 1 / 100\<rparr>
        \<and> slippy_wheel_angles s2 = \<lparr>left = 9 / 800, right = 99 / 8000\<rparr>
        \<and> sensor_data s2 = \<lparr>left_encoder = 1, right_encoder = 1\<rparr>"
    using tc ta' sa' sd' by blast
  moreover have "SLIP_FRACTION example_sim = 1 / 2"
    by (simp add: example_sim_fields)
  ultimately show ?thesis
    using state by (intro conjI)
qed

text \<open>
  C7 (the collision resolver): the obstacles are processed one after the other in the
  order of their declaration. For obstacle \<open>i\<close>, with \<open>d\<close> the distance between the
  centre of the obstacle and the robot: if \<open>d\<close> is at most
  \<open>obstacles_r + COLLISION_RADIUS\<close> (touching included), then afterwards the robot is at
  exactly that distance from the centre of the obstacle, on the same bearing from it,
  with its heading as it was; if \<open>d\<close> is larger, nothing changes.
\<close>

theorem collision_resolved:
  assumes "length (obstacles_x s) = length (obstacles_y s)" and "i < length (obstacles_x s)"
  shows "detect_collision s = Inr (foldl (\<lambda>s' j. collide j s') s [0..<length (obstacles_x s)])
   \<and> (distance (obstacles_x s ! i, obstacles_y s ! i) (x (true_pose s), y (true_pose s))
         \<le> obstacles_r s + COLLISION_RADIUS s \<longrightarrow>
       distance (obstacles_x s ! i, obstacles_y s ! i)
           (x (true_pose (collide i s)), y (true_pose (collide i s)))
         = obstacles_r s + COLLISION_RADIUS s
       \<and> atan2 (y (true_pose (collide i s)) - obstacles_y s ! i)
               (x (true_pose (collide i s)) - obstacles_x s ! i)
         = atan2 (y (true_pose s) - obstacles_y s ! i) (x (true_pose s) - obstacles_x s ! i)
       \<and> theta (true_pose (collide i s)) = theta (true_pose s))
   \<and> (obstacles_r s + COLLISION_RADIUS s
         < distance (obstacles_x s ! i, obstacles_y s ! i) (x (true_pose s), y (true_pose s)) \<longrightarrow>
       collide i s = s)"
proof (intro conjI impI)
  show "detect_collision s = Inr (foldl (\<lambda>s' j. collide j s') s [0..<length (obstacles_x s)])"
    by (rule detect_collision_in_order[OF assms(1)])
next
  assume near: "distance (obstacles_x s ! i, obstacles_y s ! i) (x (true_pose s), y (true_pose s))
         \<le> obstacles_r s + COLLISION_RADIUS s"
  then have R: "0 \<le> obstacles_r s + COLLISION_RADIUS s"
    using distance_nonneg order_trans by blast
  show "distance (obstacles_x s ! i, obstacles_y s ! i)
           (x (true_pose (collide i s)), y (true_pose (collide i s)))
         = obstacles_r s + COLLISION_RADIUS s"
    using near by (simp add: collide_cases distance_on_circle[OF R])
  have "sqrt ((x (true_pose s) - obstacles_x s ! i)\<^sup>2 + (y (true_pose s) - obstacles_y s ! i)\<^sup>2)
      \<le> obstacles_r s + COLLISION_RADIUS s"
    using near by (simp add: distance_def power2_commute)
  from bearing_on_circle[OF this]
  show "atan2 (y (true_pose (collide i s)) - obstacles_y s ! i)
               (x (true_pose (collide i s)) - obstacles_x s ! i)
         = atan2 (y (true_pose s) - obstacles_y s ! i) (x (true_pose s) - obstacles_x s ! i)"
    using near by (simp add: collide_cases)
  show "theta (true_pose (collide i s)) = theta (true_pose s)"
    by (simp add: collide_cases)
next
  assume "obstacles_r s + COLLISION_RADIUS s
         < distance (obstacles_x s ! i, obstacles_y s ! i) (x (true_pose s), y (true_pose s))"
  then show "collide i s = s" by (simp add: collide_cases)
qed

theorem collision_resolved_witness:
  "length (obstacles_x example_sim) = length (obstacles_y example_sim)
   \<and> 0 < length (obstacles_x example_sim)
   \<and> distance (obstacles_x example_sim ! 0, obstacles_y example_sim ! 0)
         (x (true_pose example_sim), y (true_pose example_sim))
       \<le> obstacles_r example_sim + COLLISION_RADIUS example_sim
   \<and> distance (1, 0) (x (true_pose (collide 0 example_sim)), y (true_pose (collide 0 example_sim)))
       = 3 / 2
   \<and> true_pose (collide 0 example_sim) = \<lparr>x = - 1 / 2, y = 0, theta = 0\<rparr>
   \<and> detect_collision example_sim = Inr (collide 0 example_sim)"
proof -
  have lens: "length (obstacles_x example_sim) = length (obstacles_y example_sim)"
    and idx: "0 < length (obstacles_x example_sim)"
    by (simp_all add: example_sim_def)
  have near: "distance (obstacles_x example_sim ! 0, obstacles_y example_sim ! 0)
         (x (true_pose example_sim), y (true_pose example_sim))
       \<le> obstacles_r example_sim + COLLISION_RADIUS example_sim"
    by (simp add: example_sim_def distance_def)
  have pose: "true_pose (collide 0 example_sim) = \<lparr>x = - 1 / 2, y = 0, theta = 0\<rparr>"
    by (simp add: collide_cases example_sim_def distance_def atan2_def)
  show ?thesis
    using collision_resolved[OF lens idx] near lens idx pose
    by (simp add: example_sim_def)
qed

text \<open>
  C8 (no noise on an idle wheel): for a comparison that holds of 0 and 0 and of no
  non-zero integer and 0, a wheel whose commanded velocity is zero gets a noisy speed
  equal to its noise-free true speed and no draw is stored for it, while a wheel with a
  non-zero command gets its true speed plus the value drawn from its own noise
  distribution. That the draws are Gaussian and independent is a property of the
  generator, which is an input here.
\<close>

theorem idle_wheel_gets_no_noise:
  assumes "almost_equal 0 0" and "\<forall>v::int. v \<noteq> 0 \<longrightarrow> \<not> almost_equal (of_int v) 0"
  shows
    "(left_velocity c = 0 \<longrightarrow>
        left (noisy_wheel_speeds (wheel_cmd_callback almost_equal d c s))
          = left (true_wheel_speeds (wheel_cmd_callback almost_equal d c s))
        \<and> left_noise (wheel_cmd_callback almost_equal d c s) = left_noise s)
   \<and> (left_velocity c \<noteq> 0 \<longrightarrow>
        left (noisy_wheel_speeds (wheel_cmd_callback almost_equal d c s))
          = left (true_wheel_speeds (wheel_cmd_callback almost_equal d c s)) + left_noise_draw d
        \<and> left_noise (wheel_cmd_callback almost_equal d c s) = left_noise_draw d)
   \<and> (right_velocity c = 0 \<longrightarrow>
        right (noisy_wheel_speeds (wheel_cmd_callback almost_equal d c s))
          = right (true_wheel_speeds (wheel_cmd_callback almost_equal d c s))
        \<and> right_noise (wheel_cmd_callback almost_equal d c s) = right_noise s)
   \<and> (right_velocity c \<noteq> 0 \<longrightarrow>
        right (noisy_wheel_speeds (wheel_cmd_callback almost_equal d c s))
          = right (true_wheel_speeds (wheel_cmd_callback almost_equal d c s)) + right_noise_draw d
        \<and> right_noise (wheel_cmd_callback almost_equal d c s) = right_noise_draw d)
   \<and> true_wheel_speeds (wheel_cmd_callback almost_equal d c s)
        = \<lparr>left = of_int (left_velocity c) * MOTOR_CMD_PER_RAD_SEC s,
           right = of_int (right_velocity c) * MOTOR_CMD_PER_RAD_SEC s\<rparr>"
  using assms by (simp add: wheel_cmd_callback_def Let_def)

theorem idle_wheel_gets_no_noise_witness:
  "left (noisy_wheel_speeds (wheel_cmd_callback (almost_equal_tol (1 / 10 ^ 12))
        \<lparr>left_noise_draw = 1 / 2, right_noise_draw = 1 / 4, right_slip_draw = 1 / 10,
         left_slip_draw = - 1 / 10\<rparr>
        \<lparr>left_velocity = 0, right_velocity = 2\<rparr> example_sim)) = 0
   \<and> left (true_wheel_speeds (wheel_cmd_callback (almost_equal_tol (1 / 10 ^ 12))
        \<lparr>left_noise_draw = 1 / 2, right_noise_draw = 1 / 4, right_slip_draw = 1 / 10,
         left_slip_draw = - 1 / 10\<rparr>
        \<lparr>left_velocity = 0, right_velocity = 2\<rparr> example_sim)) = 0
   \<and> right (noisy_wheel_speeds (wheel_cmd_callback (almost_equal_tol (1 / 10 ^ 12))
        \<lparr>left_noise_draw = 1 / 2, right_noise_draw = 1 / 4, right_slip_draw = 1 / 10,
         left_slip_draw = - 1 / 10\<rparr>
        \<lparr>left_velocity = 0, right_velocity = 2\<rparr> example_sim)) = 2 + 1 / 4
   \<and> right (true_wheel_speeds (wheel_cmd_callback (almost_equal_tol (1 / 10 ^ 12))
        \<lparr>left_noise_draw = 1 / 2, right_noise_draw = 1 / 4, right_slip_draw = 1 / 10,
         left_slip_draw = - 1 / 10\<rparr>
        \<lparr>left_velocity = 0, right_velocity = 2\<rparr> example_sim)) = 2"
proof -
  have nonzero: "\<forall>v::int. v \<noteq> 0 \<longrightarrow> \<not> almost_equal_tol (1 / 10 ^ 12) (of_int v) 0"
    using almost_equal_tol_int by blast
  have motor: "MOTOR_CMD_PER_RAD_SEC example_sim = 1"
    by (simp add: example_sim_def)
  show ?thesis
    using idle_wheel_gets_no_noise[where almost_equal = "almost_equal_tol (1 / 10 ^ 12)"
        and c = "\<lparr>left_velocity = 0, right_velocity = 2\<rparr>"
        and d = "\<lparr>left_noise_draw = 1 / 2, right_noise_draw = 1 / 4, right_slip_draw = 1 / 10,
             left_slip_draw = - 1 / 10\<rparr>"
        and s = example_sim, OF almost_equal_tol_zero nonzero]
    by (simp add: motor)
qed

end
